theory Spec2Isabelle
  imports Complex_Main
begin

section \<open>GestureDrop: gesture interpretation and the shared clipboard slot\<close>

text \<open>
  The repository holds two variants of one program: \<^verbatim>\<open>gesture_drop.py\<close> (the
  "single-file final" variant, with EMA smoothing and GET-only endpoints) and
  \<^verbatim>\<open>gesture_file_server.py\<close> (windowed displacement without EMA, and an upload
  endpoint). Both are embedded here. Names of the second file that clash with names
  of the first carry the suffix \<open>_s\<close>.

  Python floats (coordinates, timestamps, thresholds) are modelled as \<open>real\<close>: the
  decisions of the code are comparisons, \<open>abs\<close>, differences and the EMA blend.
  Rounding and NaN are outside the model.
\<close>

subsection \<open>Landmarks and the finger vector\<close>

text \<open>
  A detected hand is \<^verbatim>\<open>lm.landmark\<close>, a sequence of points with fields x, y, z.
  Indexing beyond the end raises IndexError in Python.
\<close>

record landmark =
  lx :: real
  ly :: real
  lz :: real

type_synonym hand = "landmark list"

datatype py_error = IndexError | ActionError | AttributeError | TypeError

definition landmark_at :: "hand \<Rightarrow> nat \<Rightarrow> py_error + landmark" where
  "landmark_at lm i = (if i < length lm then Inr (lm ! i) else Inl IndexError)"

definition tips :: "nat list" where
  "tips = [4, 8, 12, 16, 20]"

text \<open>
  \<^verbatim>\<open>1 if lm.landmark[tips[k]].<c> < lm.landmark[tips[k]-2].<c> else 0\<close> inside
  \<^verbatim>\<open>try: ... except: fingers.append(0)\<close>. The tip is looked up first, then the
  joint; either lookup raising gives 0.
\<close>

definition finger_open :: "(landmark \<Rightarrow> real) \<Rightarrow> hand \<Rightarrow> nat \<Rightarrow> nat" where
  "finger_open coord lm k =
     (case landmark_at lm (tips ! k) of
        Inl e \<Rightarrow> 0
      | Inr tip \<Rightarrow>
          (case landmark_at lm (tips ! k - 2) of
             Inl e \<Rightarrow> 0
           | Inr joint \<Rightarrow> (if coord tip < coord joint then 1 else 0)))"

text \<open>\<^verbatim>\<open>gesture_drop.py\<close>, lines 104-118.\<close>

definition finger_states_from_landmarks :: "hand \<Rightarrow> nat list" where
  "finger_states_from_landmarks lm =
     [finger_open lx lm 0] @ map (finger_open ly lm) [1..<5]"

text \<open>\<^verbatim>\<open>gesture_file_server.py\<close>, lines 105-117.\<close>

definition get_finger_states :: "hand \<Rightarrow> nat list" where
  "get_finger_states hand_landmarks =
     [finger_open lx hand_landmarks 0] @ map (finger_open ly hand_landmarks) [1..<5]"

subsection \<open>Shared data: gestures, clipboard slot, log, per-frame inputs\<close>

datatype gesture = ScrollUp | ScrollDown | NextTab | PrevTab | Copy | Paste | Screenshot

definition is_motion :: "gesture \<Rightarrow> bool" where
  "is_motion g = (g = ScrollUp \<or> g = ScrollDown \<or> g = NextTab \<or> g = PrevTab)"

text \<open>
  \<^verbatim>\<open>shared_clipboard = {'type': ..., 'value': ...}\<close>: a dict with exactly these two
  keys in every reachable state. In \<^verbatim>\<open>gesture_drop.py\<close> the value is a string.
\<close>

record 'v clipboard =
  ctype :: string
  cvalue :: 'v

text \<open>Lines written by \<^verbatim>\<open>print\<close>, reduced to their level tag and fixed text.\<close>

datatype level = INFO | WARN | ERROR

type_synonym log_line = "level \<times> string"

text \<open>
  What the outside world does during one iteration of the camera loop: the detector's
  answer, the clock readings, and for each external call whether it raises.
  \<open>t_detect\<close> is the \<^verbatim>\<open>time.time()\<close> read inside the motion detector,
  \<open>t_frame\<close> the one read in the loop body before the hold checks.
  \<open>clipboard_text\<close> is the result of \<^verbatim>\<open>pyperclip.paste()\<close> (None: it raises);
  \<open>screenshot_b64\<close> is the base64 text of the captured file (None: capturing or
  reading the file raises).
\<close>

record frame_in =
  hand_lm :: "hand option"
  t_detect :: real
  t_frame :: real
  scroll_raises :: bool
  tab_hotkey_raises :: bool
  copy_hotkey_raises :: bool
  clipboard_text :: "string option"
  set_clipboard_raises :: bool
  paste_hotkey_raises :: bool
  screenshot_b64 :: "string option"

text \<open>
  How a piece of code ends: the globals as it leaves them, the gestures it has fired,
  and the exception that left it, if one did.
\<close>

record 's outcome =
  state_of :: 's
  fired :: "gesture list"
  raised :: "py_error option"

definition pinch_dist :: "landmark \<Rightarrow> landmark \<Rightarrow> real" where
  \<comment> \<open>\<^verbatim>\<open>np.linalg.norm(np.array([th.x, th.y]) - np.array([idx.x, idx.y]))\<close>\<close>
  "pinch_dist th idx = sqrt ((lx th - lx idx)\<^sup>2 + (ly th - ly idx)\<^sup>2)"

subsection \<open>\<^verbatim>\<open>gesture_drop.py\<close>: configuration and state\<close>

definition SMOOTHING_WINDOW :: nat where "SMOOTHING_WINDOW = 6"
definition EMA_ALPHA :: real where "EMA_ALPHA = 0.25"
definition SCROLL_THRESHOLD :: real where "SCROLL_THRESHOLD = 0.06"
definition TAB_THRESHOLD :: real where "TAB_THRESHOLD = 0.09"
definition COOLDOWN :: real where "COOLDOWN = 0.9"
definition GESTURE_HOLD_TIME :: real where "GESTURE_HOLD_TIME = 0.45"
definition SCREENSHOT_COOLDOWN :: real where "SCREENSHOT_COOLDOWN = 2.5"

text \<open>The module globals of lines 38-52, and what has been printed so far.\<close>

record gstate =
  shared_clipboard :: "string clipboard"
  last_action_time :: real
  pos_history :: "(real \<times> real) list"
  ema_dx :: real
  ema_dy :: real
  fist_start :: "real option"
  open_start :: "real option"
  copy_confirmed :: bool
  last_screenshot_time :: real
  gesture_label :: string
  label_set_time :: real
  printed :: "log_line list"

definition init_state :: gstate where
  "init_state =
     \<lparr> shared_clipboard = \<lparr> ctype = ''empty'', cvalue = [] \<rparr>,
       last_action_time = 0, pos_history = [], ema_dx = 0, ema_dy = 0,
       fist_start = None, open_start = None, copy_confirmed = False,
       last_screenshot_time = 0, gesture_label = ''None'', label_set_time = 0,
       printed = [] \<rparr>"

definition say :: "level \<Rightarrow> string \<Rightarrow> gstate \<Rightarrow> gstate" where
  "say l m s = s\<lparr>printed := printed s @ [(l, m)]\<rparr>"

definition label_of :: "gesture \<Rightarrow> string" where
  "label_of g =
     (case g of ScrollUp \<Rightarrow> ''Scroll Up'' | ScrollDown \<Rightarrow> ''Scroll Down''
      | NextTab \<Rightarrow> ''Next Tab'' | PrevTab \<Rightarrow> ''Previous Tab''
      | Copy \<Rightarrow> ''Copy'' | Paste \<Rightarrow> ''Paste'' | Screenshot \<Rightarrow> ''Screenshot'')"

subsection \<open>\<^verbatim>\<open>gesture_drop.py\<close>: helpers\<close>

text \<open>Lines 85-90: nothing on empty text, else two stores, type first.\<close>

definition safe_copy_to_shared :: "string \<Rightarrow> string clipboard \<Rightarrow> string clipboard" where
  "safe_copy_to_shared text c =
     (if text = [] then c else (c\<lparr>ctype := ''text''\<rparr>)\<lparr>cvalue := text\<rparr>)"

text \<open>Lines 92-96: a failing \<^verbatim>\<open>pyperclip.copy\<close> is caught and printed as a warning.\<close>

definition safe_set_local_clipboard :: "frame_in \<Rightarrow> gstate \<Rightarrow> gstate" where
  "safe_set_local_clipboard f s =
     (if set_clipboard_raises f then say WARN ''pyperclip.copy failed'' s else s)"

text \<open>
  Lines 120-158. The returned label is given as the gesture it names (\<open>label_of\<close>),
  in \<open>fired\<close>; returning None is the empty list.
  \<^verbatim>\<open>pyautogui.scroll\<close> and \<^verbatim>\<open>pyautogui.hotkey\<close> are not inside a \<^verbatim>\<open>try\<close> here: when
  one raises, the exception leaves the function, after the EMA update.
\<close>

definition fire_motion :: "gesture \<Rightarrow> real \<Rightarrow> gstate \<Rightarrow> gstate outcome" where
  "fire_motion g now s =
     \<lparr> state_of = s\<lparr>gesture_label := label_of g, label_set_time := now,
                      last_action_time := now\<rparr>,
       fired = [g], raised = None \<rparr>"

definition nothing :: "'s \<Rightarrow> 's outcome" where
  "nothing s = \<lparr> state_of = s, fired = [], raised = None \<rparr>"

definition raise :: "py_error \<Rightarrow> 's \<Rightarrow> 's outcome" where
  "raise e s = \<lparr> state_of = s, fired = [], raised = Some e \<rparr>"

definition update_motion_and_detect ::
  "frame_in \<Rightarrow> real \<Rightarrow> real \<Rightarrow> gstate \<Rightarrow> gstate outcome" where
  "update_motion_and_detect f dx dy s0 =
     (let s = s0\<lparr>ema_dx := EMA_ALPHA * dx + (1 - EMA_ALPHA) * ema_dx s0,
                 ema_dy := EMA_ALPHA * dy + (1 - EMA_ALPHA) * ema_dy s0\<rparr>;
          now = t_detect f
      in if now - last_action_time s < COOLDOWN then nothing s
         else
           let abs_dx = \<bar>ema_dx s\<bar>; abs_dy = \<bar>ema_dy s\<bar>
           in if abs_dy > SCROLL_THRESHOLD \<and> abs_dy > abs_dx then
                (if scroll_raises f then raise ActionError s
                 else fire_motion (if ema_dy s < 0 then ScrollUp else ScrollDown) now s)
              else if abs_dx > TAB_THRESHOLD \<and> abs_dx > abs_dy then
                (if tab_hotkey_raises f then raise ActionError s
                 else fire_motion (if ema_dx s > 0 then NextTab else PrevTab) now s)
              else nothing s)"

subsection \<open>\<^verbatim>\<open>gesture_drop.py\<close>: one iteration of \<^verbatim>\<open>main_loop\<close>\<close>

text \<open>Lines 200-208: the position window and the displacement across it.\<close>

definition push_history :: "real \<times> real \<Rightarrow> (real \<times> real) list \<Rightarrow> (real \<times> real) list" where
  "push_history p h =
     (let h' = h @ [p] in if length h' > SMOOTHING_WINDOW then tl h' else h')"

definition window_delta :: "(real \<times> real) list \<Rightarrow> real \<times> real" where
  "window_delta h =
     (if length h \<ge> 2 then (fst (last h) - fst (hd h), snd (last h) - snd (hd h))
      else (0, 0))"

text \<open>
  Lines 225-242, the body of the copy \<^verbatim>\<open>try\<close>. Only the hotkey can leave it by an
  exception; a failing \<^verbatim>\<open>pyperclip.paste()\<close> is caught inside and leaves
  \<^verbatim>\<open>text = ""\<close>.
\<close>

definition copy_action :: "frame_in \<Rightarrow> real \<Rightarrow> gstate \<Rightarrow> gstate \<times> gesture list" where
  "copy_action f now s =
     (if copy_hotkey_raises f then (say ERROR ''Copy action failed'' s, [])
      else
        let s1 = (case clipboard_text f of
                    None \<Rightarrow> say WARN ''pyperclip.paste failed'' s | Some t \<Rightarrow> s);
            text = (case clipboard_text f of None \<Rightarrow> [] | Some t \<Rightarrow> t);
            s2 = (if text \<noteq> [] then
                    say INFO ''Copied & synced''
                      (s1\<lparr>shared_clipboard := safe_copy_to_shared text (shared_clipboard s1)\<rparr>)
                  else say INFO ''Copy gesture detected but clipboard empty or non-text'' s1)
        in (s2\<lparr>gesture_label := ''Copy'', label_set_time := now, copy_confirmed := True\<rparr>,
            [Copy]))"

text \<open>Lines 219-245.\<close>

definition copy_block :: "frame_in \<Rightarrow> nat \<Rightarrow> real \<Rightarrow> gstate \<Rightarrow> gstate \<times> gesture list" where
  "copy_block f total_f now s =
     (if total_f = 0 then
        (case fist_start s of
           None \<Rightarrow> (s\<lparr>fist_start := Some now\<rparr>, [])
         | Some t0 \<Rightarrow>
             if now - t0 > GESTURE_HOLD_TIME \<and> \<not> copy_confirmed s then
               (let r = copy_action f now s in ((fst r)\<lparr>fist_start := None\<rparr>, snd r))
             else (s, []))
      else (s\<lparr>fist_start := None\<rparr>, []))"

text \<open>Lines 252-262, the body of the paste \<^verbatim>\<open>try\<close>.\<close>

definition paste_action :: "frame_in \<Rightarrow> real \<Rightarrow> gstate \<Rightarrow> gstate \<times> gesture list" where
  "paste_action f now s =
     (let s1 = (if ctype (shared_clipboard s) = ''text'' \<and> cvalue (shared_clipboard s) \<noteq> []
                then safe_set_local_clipboard f s else s)
      in if paste_hotkey_raises f then (say ERROR ''Paste failed'' s1, [])
         else ((say INFO ''Performed paste of shared clipboard''
                 (s1\<lparr>gesture_label := ''Paste'', label_set_time := now\<rparr>))
                 \<lparr>copy_confirmed := False\<rparr>,
               [Paste]))"

text \<open>Lines 247-265.\<close>

definition paste_block :: "frame_in \<Rightarrow> nat \<Rightarrow> real \<Rightarrow> gstate \<Rightarrow> gstate \<times> gesture list" where
  "paste_block f total_f now s =
     (if total_f = 5 then
        (case open_start s of
           None \<Rightarrow> (s\<lparr>open_start := Some now\<rparr>, [])
         | Some t0 \<Rightarrow>
             if now - t0 > GESTURE_HOLD_TIME \<and> copy_confirmed s then
               (let r = paste_action f now s in ((fst r)\<lparr>open_start := None\<rparr>, snd r))
             else (s, []))
      else (s\<lparr>open_start := None\<rparr>, []))"

text \<open>Lines 267-283.\<close>

definition screenshot_block ::
  "frame_in \<Rightarrow> nat list \<Rightarrow> landmark \<Rightarrow> landmark \<Rightarrow> real \<Rightarrow> gstate \<Rightarrow> gstate \<times> gesture list" where
  "screenshot_block f fingers th idx now s =
     (if fingers ! 0 = 1 \<and> fingers ! 1 = 1 \<and> sum_list (drop 2 fingers) = 0 then
        (if pinch_dist th idx < 0.05 \<and> now - last_screenshot_time s > SCREENSHOT_COOLDOWN then
           (case screenshot_b64 f of
              None \<Rightarrow> (say ERROR ''Screenshot action failed'' s, [])
            | Some b \<Rightarrow>
                (say INFO ''Screenshot saved & synced''
                   (s\<lparr>shared_clipboard :=
                        ((shared_clipboard s)\<lparr>ctype := ''image''\<rparr>)\<lparr>cvalue := b\<rparr>,
                      gesture_label := ''Screenshot'', label_set_time := now,
                      last_screenshot_time := now\<rparr>),
                 [Screenshot]))
         else (s, []))
      else (s, []))"

text \<open>
  Lines 191-290: the state change of one loop iteration and the gestures it fires, in
  the order in which the code performs them. A gesture is recorded where the code has
  carried out its action and sets \<^verbatim>\<open>gesture_label\<close>. Reading landmark 8 or 4 of a
  shorter landmark sequence raises, and so does a failing scroll or tab hotkey; both
  end the loop. The overlay drawing (lines 292-304) changes no state.
  \<open>hold_and_pinch_checks\<close> is lines 214-283.
\<close>

definition hold_and_pinch_checks ::
  "frame_in \<Rightarrow> hand \<Rightarrow> landmark \<Rightarrow> landmark \<Rightarrow> gstate \<Rightarrow> gstate \<times> gesture list" where
  "hold_and_pinch_checks f lm th idx s =
     (let fingers = finger_states_from_landmarks lm;
          total_f = sum_list fingers;
          now = t_frame f;
          c = copy_block f total_f now s;
          p = paste_block f total_f now (fst c);
          sc = screenshot_block f fingers th idx now (fst p)
      in (fst sc, snd c @ snd p @ snd sc))"

definition main_loop_frame :: "frame_in \<Rightarrow> gstate \<Rightarrow> gstate outcome" where
  "main_loop_frame f s =
     (case hand_lm f of
        None \<Rightarrow> nothing (s\<lparr>pos_history := [], fist_start := None, open_start := None\<rparr>)
      | Some lm \<Rightarrow>
          (case landmark_at lm 8 of
             Inl e \<Rightarrow> raise e s
           | Inr idx \<Rightarrow>
               (case landmark_at lm 4 of
                  Inl e \<Rightarrow> raise e s
                | Inr th \<Rightarrow>
                    (let h = push_history (lx idx, ly idx) (pos_history s);
                         d = window_delta h;
                         m = update_motion_and_detect f (fst d) (snd d) (s\<lparr>pos_history := h\<rparr>)
                     in case raised m of
                          Some e \<Rightarrow> m
                        | None \<Rightarrow>
                            (let r = hold_and_pinch_checks f lm th idx (state_of m)
                             in \<lparr> state_of = fst r, fired = fired m @ snd r,
                                  raised = None \<rparr>)))))"

text \<open>
  The loop over a finite sequence of frames: the state it ends in, the gestures fired
  in each iteration it entered, and the exception that ended it, if one did. No
  iteration follows one that raises.
\<close>

fun run_main_loop :: "gstate \<Rightarrow> frame_in list \<Rightarrow> gstate \<times> gesture list list \<times> py_error option" where
  "run_main_loop s [] = (s, [], None)"
| "run_main_loop s (f # fs) =
     (let r = main_loop_frame f s
      in case raised r of
           Some e \<Rightarrow> (state_of r, [fired r], Some e)
         | None \<Rightarrow>
             (let rest = run_main_loop (state_of r) fs
              in (fst rest, fired r # fst (snd rest), snd (snd rest))))"

subsection \<open>\<^verbatim>\<open>gesture_file_server.py\<close>: configuration and state\<close>

definition SCROLL_THRESHOLD_s :: real where "SCROLL_THRESHOLD_s = 0.08"
definition TAB_THRESHOLD_s :: real where "TAB_THRESHOLD_s = 0.10"
definition COOLDOWN_s :: real where "COOLDOWN_s = 1.0"
definition SMOOTHING_WINDOW_s :: nat where "SMOOTHING_WINDOW_s = 4"
definition GESTURE_HOLD_TIME_s :: real where "GESTURE_HOLD_TIME_s = 0.5"
definition SCREENSHOT_COOLDOWN_s :: real where "SCREENSHOT_COOLDOWN_s = 3.0"

text \<open>
  In this file the slot's value can be any JSON value: the upload endpoint stores
  whatever the request's \<^verbatim>\<open>"text"\<close> member is. \<open>truthy\<close> is Python's truth value of
  the parsed value.
\<close>

datatype jval =
  JNull | JBool bool | JNum real | JStr string | JList "jval list"
  | JDict "(string \<times> jval) list"

fun truthy :: "jval \<Rightarrow> bool" where
  "truthy JNull = False"
| "truthy (JBool b) = b"
| "truthy (JNum n) = (n \<noteq> 0)"
| "truthy (JStr t) = (t \<noteq> [])"
| "truthy (JList l) = (l \<noteq> [])"
| "truthy (JDict d) = (d \<noteq> [])"

text \<open>
  The module globals of lines 29-32 and 97-103, the local \<^verbatim>\<open>label_display_time\<close> of
  \<^verbatim>\<open>main\<close>, and what has been printed so far.
\<close>

record sstate =
  shared_clipboard_s :: "jval clipboard"
  last_action_time_s :: real
  x_history :: "real list"
  y_history :: "real list"
  gesture_text :: string
  fist_start_time :: "real option"
  open_start_time :: "real option"
  copy_done :: bool
  last_screenshot_time_s :: real
  label_display_time :: real
  printed_s :: "log_line list"

definition init_state_s :: sstate where
  "init_state_s =
     \<lparr> shared_clipboard_s = \<lparr> ctype = ''empty'', cvalue = JStr [] \<rparr>,
       last_action_time_s = 0, x_history = [], y_history = [],
       gesture_text = ''None'', fist_start_time = None, open_start_time = None,
       copy_done = False, last_screenshot_time_s = 0, label_display_time = 0,
       printed_s = [] \<rparr>"

definition say_s :: "level \<Rightarrow> string \<Rightarrow> sstate \<Rightarrow> sstate" where
  "say_s l m s = s\<lparr>printed_s := printed_s s @ [(l, m)]\<rparr>"

text \<open>
  The texts assigned to \<^verbatim>\<open>gesture_text\<close>; the screenshot text is given without the
  file name that the source appends to it.
\<close>

definition text_of :: "gesture \<Rightarrow> string" where
  "text_of g =
     (case g of ScrollUp \<Rightarrow> ''Gesture Detected: Scroll Up''
      | ScrollDown \<Rightarrow> ''Gesture Detected: Scroll Down''
      | NextTab \<Rightarrow> ''Gesture Detected: Next Tab''
      | PrevTab \<Rightarrow> ''Gesture Detected: Previous Tab''
      | Copy \<Rightarrow> ''Gesture Detected: Copy (synced)''
      | Paste \<Rightarrow> ''Gesture Detected: Paste''
      | Screenshot \<Rightarrow> ''Gesture Detected: Screenshot Saved'')"

subsection \<open>\<^verbatim>\<open>gesture_file_server.py\<close>: motion detector\<close>

text \<open>
  Lines 119-144. The two histories are appended to and trimmed together; should the
  y history be empty after trimming, reading its ends raises. No EMA: the decision
  reads the displacement across the window. A raising scroll or hotkey leaves the
  function.
\<close>

definition fire_motion_s :: "gesture \<Rightarrow> real \<Rightarrow> sstate \<Rightarrow> sstate outcome" where
  "fire_motion_s g now s =
     \<lparr> state_of = s\<lparr>gesture_text := text_of g, last_action_time_s := now\<rparr>,
       fired = [g], raised = None \<rparr>"

definition detect_motion_gesture :: "frame_in \<Rightarrow> real \<Rightarrow> real \<Rightarrow> sstate \<Rightarrow> sstate outcome" where
  "detect_motion_gesture f x y s0 =
     (let xa = x_history s0 @ [x];
          ya = y_history s0 @ [y];
          xh = (if length xa > SMOOTHING_WINDOW_s then tl xa else xa);
          yh = (if length xa > SMOOTHING_WINDOW_s then tl ya else ya);
          s = s0\<lparr>x_history := xh, y_history := yh\<rparr>
      in if xh = [] \<or> yh = [] then raise IndexError s
         else
           let dx = last xh - hd xh;
               dy = last yh - hd yh;
               now = t_detect f
           in if now - last_action_time_s s > COOLDOWN_s then
                (if \<bar>dy\<bar> > SCROLL_THRESHOLD_s \<and> \<bar>dy\<bar> > \<bar>dx\<bar> then
                   (if scroll_raises f then raise ActionError s
                    else fire_motion_s (if dy < 0 then ScrollUp else ScrollDown) now s)
                 else if \<bar>dx\<bar> > TAB_THRESHOLD_s \<and> \<bar>dx\<bar> > \<bar>dy\<bar> then
                   (if tab_hotkey_raises f then raise ActionError s
                    else fire_motion_s (if dx > 0 then NextTab else PrevTab) now s)
                 else nothing s)
              else nothing s)"

subsection \<open>\<^verbatim>\<open>gesture_file_server.py\<close>: one iteration of \<^verbatim>\<open>main\<close>\<close>

text \<open>Lines 195-214, the body of the copy \<^verbatim>\<open>try\<close>.\<close>

definition copy_action_s :: "frame_in \<Rightarrow> real \<Rightarrow> sstate \<Rightarrow> sstate \<times> gesture list" where
  "copy_action_s f now s =
     (if copy_hotkey_raises f then (say_s ERROR ''Copy action failed'' s, [])
      else
        let s1 = (case clipboard_text f of
                    None \<Rightarrow> say_s WARN ''pyperclip paste failed'' s | Some t \<Rightarrow> s);
            txt = (case clipboard_text f of None \<Rightarrow> [] | Some t \<Rightarrow> t);
            c = shared_clipboard_s s1;
            s2 = (if txt \<noteq> [] then
                    s1\<lparr>shared_clipboard_s := (c\<lparr>ctype := ''text''\<rparr>)\<lparr>cvalue := JStr txt\<rparr>\<rparr>
                  else s1\<lparr>shared_clipboard_s := c\<lparr>ctype := ctype c\<rparr>\<rparr>)
        in ((say_s INFO ''Copied and synced''
               (s2\<lparr>gesture_text := text_of Copy, label_display_time := now\<rparr>))
              \<lparr>copy_done := True\<rparr>,
            [Copy]))"

text \<open>Lines 190-217.\<close>

definition copy_block_s :: "frame_in \<Rightarrow> nat \<Rightarrow> real \<Rightarrow> sstate \<Rightarrow> sstate \<times> gesture list" where
  "copy_block_s f total_fingers now s =
     (if total_fingers = 0 then
        (case fist_start_time s of
           None \<Rightarrow> (s\<lparr>fist_start_time := Some now\<rparr>, [])
         | Some t0 \<Rightarrow>
             if now - t0 > GESTURE_HOLD_TIME_s \<and> \<not> copy_done s then
               (let r = copy_action_s f now s in ((fst r)\<lparr>fist_start_time := None\<rparr>, snd r))
             else (s, []))
      else (s\<lparr>fist_start_time := None\<rparr>, []))"

text \<open>Lines 224-237, the body of the paste \<^verbatim>\<open>try\<close>.\<close>

definition paste_action_s :: "frame_in \<Rightarrow> real \<Rightarrow> sstate \<Rightarrow> sstate \<times> gesture list" where
  "paste_action_s f now s =
     (let c = shared_clipboard_s s;
          s1 = (if ctype c = ''text'' \<and> truthy (cvalue c) then
                  (if set_clipboard_raises f then say_s WARN ''pyperclip copy failed'' s else s)
                else s)
      in if paste_hotkey_raises f then (say_s ERROR ''Paste failed'' s1, [])
         else ((say_s INFO ''Pasted shared clipboard''
                  (s1\<lparr>gesture_text := text_of Paste, label_display_time := now\<rparr>))
                 \<lparr>copy_done := False\<rparr>,
               [Paste]))"

text \<open>Lines 219-240.\<close>

definition paste_block_s :: "frame_in \<Rightarrow> nat \<Rightarrow> real \<Rightarrow> sstate \<Rightarrow> sstate \<times> gesture list" where
  "paste_block_s f total_fingers now s =
     (if total_fingers = 5 then
        (case open_start_time s of
           None \<Rightarrow> (s\<lparr>open_start_time := Some now\<rparr>, [])
         | Some t0 \<Rightarrow>
             if now - t0 > GESTURE_HOLD_TIME_s \<and> copy_done s then
               (let r = paste_action_s f now s in ((fst r)\<lparr>open_start_time := None\<rparr>, snd r))
             else (s, []))
      else (s\<lparr>open_start_time := None\<rparr>, []))"

text \<open>Lines 242-259.\<close>

definition screenshot_block_s ::
  "frame_in \<Rightarrow> nat list \<Rightarrow> landmark \<Rightarrow> landmark \<Rightarrow> real \<Rightarrow> sstate \<Rightarrow> sstate \<times> gesture list" where
  "screenshot_block_s f fingers thumb_tip index_tip now s =
     (let thumb_index_distance = pinch_dist thumb_tip index_tip
      in if fingers ! 0 = 1 \<and> fingers ! 1 = 1 \<and> sum_list (drop 2 fingers) = 0 then
           (if thumb_index_distance < 0.05
                 \<and> now - last_screenshot_time_s s > SCREENSHOT_COOLDOWN_s then
              (case screenshot_b64 f of
                 None \<Rightarrow> (say_s ERROR ''Screenshot/save failed'' s, [])
               | Some b64 \<Rightarrow>
                   (say_s INFO ''Screenshot saved and synced''
                      (s\<lparr>shared_clipboard_s :=
                           ((shared_clipboard_s s)\<lparr>ctype := ''image''\<rparr>)\<lparr>cvalue := JStr b64\<rparr>,
                         gesture_text := text_of Screenshot, label_display_time := now,
                         last_screenshot_time_s := now\<rparr>),
                    [Screenshot]))
            else (s, []))
         else (s, []))"

text \<open>
  Lines 178-262. The \<^verbatim>\<open>if results.multi_hand_landmarks:\<close> has no \<^verbatim>\<open>else\<close>: an
  iteration without a hand changes nothing. With a hand, the hold and pinch checks run
  first and the motion detector last, so a scroll or hotkey that raises does so after
  the other gestures of the frame have fired.
\<close>

definition hold_and_pinch_checks_s ::
  "frame_in \<Rightarrow> hand \<Rightarrow> landmark \<Rightarrow> landmark \<Rightarrow> sstate \<Rightarrow> sstate \<times> gesture list" where
  "hold_and_pinch_checks_s f hand thumb_tip index_tip s =
     (let fingers = get_finger_states hand;
          total_fingers = sum_list fingers;
          now = t_frame f;
          c = copy_block_s f total_fingers now s;
          p = paste_block_s f total_fingers now (fst c);
          sc = screenshot_block_s f fingers thumb_tip index_tip now (fst p)
      in (fst sc, snd c @ snd p @ snd sc))"

definition main_frame :: "frame_in \<Rightarrow> sstate \<Rightarrow> sstate outcome" where
  "main_frame f s =
     (case hand_lm f of
        None \<Rightarrow> nothing s
      | Some hand \<Rightarrow>
          (case landmark_at hand 8 of
             Inl e \<Rightarrow> raise e s
           | Inr index_tip \<Rightarrow>
               (case landmark_at hand 4 of
                  Inl e \<Rightarrow> raise e s
                | Inr thumb_tip \<Rightarrow>
                    (let r = hold_and_pinch_checks_s f hand thumb_tip index_tip s;
                         m = detect_motion_gesture f (lx index_tip) (ly index_tip) (fst r)
                     in \<lparr> state_of = state_of m, fired = snd r @ fired m,
                          raised = raised m \<rparr>))))"

fun run_main :: "sstate \<Rightarrow> frame_in list \<Rightarrow> sstate \<times> gesture list list \<times> py_error option" where
  "run_main s [] = (s, [], None)"
| "run_main s (f # fs) =
     (let r = main_frame f s
      in case raised r of
           Some e \<Rightarrow> (state_of r, [fired r], Some e)
         | None \<Rightarrow>
             (let rest = run_main (state_of r) fs
              in (fst rest, fired r # fst (snd rest), snd (snd rest))))"

subsection \<open>The HTTP interface\<close>

text \<open>
  A request as the views see it: method and path, Flask's \<^verbatim>\<open>request.is_json\<close>, the
  result of \<^verbatim>\<open>request.get_json()\<close> (None: the body does not parse, Flask answers
  400), and \<^verbatim>\<open>request.files\<close> as field name and file content. A parsed JSON object
  is the list of its members, keys distinct. A view gets the slot and returns the
  response and the slot as it leaves it. An exception that leaves a view becomes
  Flask's 500 response.
\<close>

record request =
  r_method :: string
  r_path :: string
  r_is_json :: bool
  r_json :: "jval option"
  r_files :: "(string \<times> string) list"

record response =
  status :: nat
  body :: "(string \<times> jval) list"

definition plain_response :: "nat \<Rightarrow> response" where
  "plain_response n = \<lparr> status = n, body = [] \<rparr>"

text \<open>
  Flask's dispatch of a rule registered with \<^verbatim>\<open>methods=ms\<close>: the view runs for a
  method in \<open>ms\<close>, and for HEAD when GET is in \<open>ms\<close>, where the answer goes out
  without its body; OPTIONS is answered by Flask itself; any other method gets 405.
\<close>

definition route ::
  "string list \<Rightarrow> ('c \<Rightarrow> response \<times> 'c) \<Rightarrow> request \<Rightarrow> 'c \<Rightarrow> response \<times> 'c" where
  "route ms view rq c =
     (if r_method rq \<in> set ms then view c
      else if r_method rq = ''HEAD'' \<and> ''GET'' \<in> set ms then
        (let r = view c in ((fst r)\<lparr>body := []\<rparr>, snd r))
      else if r_method rq = ''OPTIONS'' then (plain_response 200, c)
      else (plain_response 405, c))"

text \<open>\<^verbatim>\<open>gesture_drop.py\<close>, lines 57-64. The address is found by a socket call.\<close>

definition api_get_clipboard :: "string clipboard \<Rightarrow> response \<times> string clipboard" where
  "api_get_clipboard c =
     (\<lparr> status = 200, body = [(''type'', JStr (ctype c)), (''value'', JStr (cvalue c))] \<rparr>, c)"

definition api_ip :: "string \<Rightarrow> 'c \<Rightarrow> response \<times> 'c" where
  "api_ip local_ip c = (\<lparr> status = 200, body = [(''ip'', JStr local_ip)] \<rparr>, c)"

definition handle_request :: "string \<Rightarrow> request \<Rightarrow> string clipboard \<Rightarrow> response \<times> string clipboard" where
  "handle_request local_ip rq c =
     (if r_path rq = ''/get_clipboard'' then route [''GET''] api_get_clipboard rq c
      else if r_path rq = ''/ip'' then route [''GET''] (api_ip local_ip) rq c
      else (plain_response 404, c))"

text \<open>\<^verbatim>\<open>gesture_file_server.py\<close>, lines 37-40.\<close>

definition get_clipboard :: "jval clipboard \<Rightarrow> response \<times> jval clipboard" where
  "get_clipboard c =
     (\<lparr> status = 200, body = [(''type'', JStr (ctype c)), (''value'', cvalue c)] \<rparr>, c)"

text \<open>
  Lines 42-72. \<open>b64encode\<close> is \<^verbatim>\<open>base64.b64encode(..).decode('utf-8')\<close>.
  \<^verbatim>\<open>data.get\<close> raises on a JSON value that is not an object. A \<^verbatim>\<open>"text"\<close> member that
  is not null is stored as it is; \<^verbatim>\<open>len(text)\<close> in the following \<^verbatim>\<open>print\<close> raises for
  a number or a boolean, after the two stores.
\<close>

definition has_len :: "jval \<Rightarrow> bool" where
  "has_len v = (case v of JStr t \<Rightarrow> True | JList l \<Rightarrow> True | JDict d \<Rightarrow> True | _ \<Rightarrow> False)"

definition upload_ok :: "string \<Rightarrow> response" where
  "upload_ok kind = \<lparr> status = 200, body = [(''status'', JStr ''ok''), (''type'', JStr kind)] \<rparr>"

definition upload_image ::
  "(string \<Rightarrow> string) \<Rightarrow> request \<Rightarrow> jval clipboard \<Rightarrow> response \<times> jval clipboard" where
  "upload_image b64encode rq c =
     (case map_of (r_files rq) ''image'' of
        Some img_bytes \<Rightarrow>
          (upload_ok ''image'', (c\<lparr>ctype := ''image''\<rparr>)\<lparr>cvalue := JStr (b64encode img_bytes)\<rparr>)
      | None \<Rightarrow>
          (\<lparr> status = 400,
             body = [(''status'', JStr ''error''), (''message'', JStr ''No valid payload'')] \<rparr>,
           c))"

definition upload_clipboard ::
  "(string \<Rightarrow> string) \<Rightarrow> request \<Rightarrow> jval clipboard \<Rightarrow> response \<times> jval clipboard" where
  "upload_clipboard b64encode rq c =
     (if r_is_json rq then
        (case r_json rq of
           None \<Rightarrow> (plain_response 400, c)
         | Some (JDict members) \<Rightarrow>
             (case map_of members ''text'' of
                None \<Rightarrow> upload_image b64encode rq c
              | Some JNull \<Rightarrow> upload_image b64encode rq c
              | Some text \<Rightarrow>
                  (if has_len text then upload_ok ''text'' else plain_response 500,
                   (c\<lparr>ctype := ''text''\<rparr>)\<lparr>cvalue := text\<rparr>))
         | Some other \<Rightarrow> (plain_response 500, c))
      else upload_image b64encode rq c)"

definition handle_request_s ::
  "(string \<Rightarrow> string) \<Rightarrow> string \<Rightarrow> request \<Rightarrow> jval clipboard \<Rightarrow> response \<times> jval clipboard" where
  "handle_request_s b64encode local_ip rq c =
     (if r_path rq = ''/get_clipboard'' then route [''GET''] get_clipboard rq c
      else if r_path rq = ''/upload_clipboard'' then
        route [''POST''] (upload_clipboard b64encode rq) rq c
      else if r_path rq = ''/ip'' then route [''GET''] (api_ip local_ip) rq c
      else (plain_response 404, c))"

subsection \<open>The slot under two threads\<close>

text \<open>
  The camera loop and the Flask thread share the dict and no lock exists in either
  file. Every write of the slot in the sources is two subscript stores, \<^verbatim>\<open>'type'\<close>
  first and \<^verbatim>\<open>'value'\<close> second (\<^verbatim>\<open>gesture_drop.py\<close> lines 89-90 and 276-277, where
  the base64 encoding is computed between the two; \<^verbatim>\<open>gesture_file_server.py\<close> lines
  204-205, 252-253, 54-55, 64-65); every read by the query view is two lookups,
  \<^verbatim>\<open>'type'\<close> first (line 60, resp. line 40). The model takes one store and one lookup
  as the atomic steps, the coarsest grain at which the interpreter can switch threads
  between two statements, and a schedule is any interleaving of the two threads'
  steps.
\<close>

datatype 'v access = StoreType string | StoreValue 'v | LoadType | LoadValue

record 'v shared =
  slot :: "'v clipboard"
  seen_type :: "string option"
  seen_value :: "'v option"

fun exec :: "'v access \<Rightarrow> 'v shared \<Rightarrow> 'v shared" where
  "exec (StoreType k) s = s\<lparr>slot := (slot s)\<lparr>ctype := k\<rparr>\<rparr>"
| "exec (StoreValue v) s = s\<lparr>slot := (slot s)\<lparr>cvalue := v\<rparr>\<rparr>"
| "exec LoadType s = s\<lparr>seen_type := Some (ctype (slot s))\<rparr>"
| "exec LoadValue s = s\<lparr>seen_value := Some (cvalue (slot s))\<rparr>"

definition write_steps :: "string \<Rightarrow> 'v \<Rightarrow> 'v access list" where
  "write_steps k v = [StoreType k, StoreValue v]"

definition read_steps :: "'v access list" where
  "read_steps = [LoadType, LoadValue]"

fun interleavings :: "'a list \<Rightarrow> 'a list \<Rightarrow> 'a list list" where
  "interleavings [] ys = [ys]"
| "interleavings xs [] = [xs]"
| "interleavings (x # xs) (y # ys) =
     map ((#) x) (interleavings xs (y # ys)) @ map ((#) y) (interleavings (x # xs) ys)"

definition run_schedule :: "'v access list \<Rightarrow> 'v clipboard \<Rightarrow> 'v shared" where
  "run_schedule sched c =
     fold exec sched \<lparr> slot = c, seen_type = None, seen_value = None \<rparr>"

definition observed :: "'v access list \<Rightarrow> 'v clipboard \<Rightarrow> string option \<times> 'v option" where
  "observed sched c = (seen_type (run_schedule sched c), seen_value (run_schedule sched c))"

subsection \<open>Traces of gestures\<close>

text \<open>
  The copy and paste events of a trace hand over correctly from a flag value \<open>c\<close>:
  a Copy needs the flag unset and sets it, a Paste needs it set and clears it.
\<close>

fun handoff_ok :: "bool \<Rightarrow> gesture list \<Rightarrow> bool" where
  "handoff_ok c [] = True"
| "handoff_ok c (g # gs) =
     (if g = Copy then \<not> c \<and> handoff_ok True gs
      else if g = Paste then c \<and> handoff_ok False gs
      else handoff_ok c gs)"

fun flag_after :: "bool \<Rightarrow> gesture list \<Rightarrow> bool" where
  "flag_after c [] = c"
| "flag_after c (g # gs) =
     flag_after (if g = Copy then True else if g = Paste then False else c) gs"

definition count_of :: "gesture \<Rightarrow> gesture list \<Rightarrow> nat" where
  "count_of g gs = length (filter (\<lambda>x. x = g) gs)"

definition shows_fist :: "frame_in \<Rightarrow> bool" where
  "shows_fist f =
     (case hand_lm f of None \<Rightarrow> False
      | Some lm \<Rightarrow> sum_list (finger_states_from_landmarks lm) = 0)"

text \<open>
  The decision of the motion check on a pair of signed magnitudes, as section 4.3 of
  the specification words it, with the thresholds as parameters.
\<close>

definition axis_dominance :: "real \<Rightarrow> real \<Rightarrow> real \<Rightarrow> real \<Rightarrow> gesture list" where
  "axis_dominance vthr hthr ex ey =
     (if \<bar>ey\<bar> > vthr \<and> \<bar>ey\<bar> > \<bar>ex\<bar> then [if ey < 0 then ScrollUp else ScrollDown]
      else if \<bar>ex\<bar> > hthr \<and> \<bar>ex\<bar> > \<bar>ey\<bar> then [if ex > 0 then NextTab else PrevTab]
      else [])"

subsection \<open>Concrete inputs\<close>

text \<open>
  A hand whose 21 landmarks coincide at \<open>(x, y)\<close> reads as a fist; \<open>open_hand\<close> has
  the thumb tip left of its joint and every other tip above its joint, index tip at
  \<open>(x, y)\<close>. \<open>frame_at\<close> is an iteration at time \<open>t\<close> in which every external call
  succeeds and the system clipboard holds \<^verbatim>\<open>hello\<close>.
\<close>

definition still_hand :: "real \<Rightarrow> real \<Rightarrow> hand" where
  "still_hand x y = replicate 21 \<lparr> lx = x, ly = y, lz = 0 \<rparr>"

definition open_hand :: "real \<Rightarrow> real \<Rightarrow> hand" where
  "open_hand x y =
     map (\<lambda>i. \<lparr> lx = (if i = 4 then x - 0.1 else x),
                ly = (if i \<in> set tips then y else y + 0.1), lz = 0 \<rparr>) [0..<21]"

definition frame_at :: "hand option \<Rightarrow> real \<Rightarrow> frame_in" where
  "frame_at h t =
     \<lparr> hand_lm = h, t_detect = t, t_frame = t, scroll_raises = False,
       tab_hotkey_raises = False, copy_hotkey_raises = False,
       clipboard_text = Some ''hello'', set_clipboard_raises = False,
       paste_hotkey_raises = False, screenshot_b64 = Some ''QUJD'' \<rparr>"

definition upload_text_request :: "string \<Rightarrow> request" where
  "upload_text_request t =
     \<lparr> r_method = ''POST'', r_path = ''/upload_clipboard'', r_is_json = True,
       r_json = Some (JDict [(''text'', JStr t)]), r_files = [] \<rparr>"

definition upload_image_request :: "string \<Rightarrow> request" where
  "upload_image_request img =
     \<lparr> r_method = ''POST'', r_path = ''/upload_clipboard'', r_is_json = False,
       r_json = None, r_files = [(''image'', img)] \<rparr>"

definition get_clipboard_request :: request where
  "get_clipboard_request =
     \<lparr> r_method = ''GET'', r_path = ''/get_clipboard'', r_is_json = False,
       r_json = None, r_files = [] \<rparr>"

subsection \<open>Proofs: finger vector\<close>

lemma upt_1_5: "[Suc 0..<5] = [1, 2, 3, 4]"
  by (simp add: upt_rec)

lemma finger_open_unfold:
  "finger_open coord lm k =
     (if tips ! k < length lm \<and> coord (lm ! (tips ! k)) < coord (lm ! (tips ! k - 2))
      then 1 else 0)"
  by (auto simp: finger_open_def landmark_at_def)

text \<open>
  C9. The finger vector has five entries, thumb first. The thumb is 1 exactly when
  landmark 4 (its tip) has a smaller x than landmark 2 (its lower joint); index,
  middle, ring and pinky are 1 exactly when the tip (8, 12, 16, 20) has a smaller y
  than the joint two below it (6, 10, 14, 18). A tip that is not in the landmark
  sequence gives 0, and the function always returns a vector. Both files compute the
  same vector.
\<close>

theorem C9_finger_vector:
  "finger_states_from_landmarks lm =
     [ (if 4 < length lm \<and> lx (lm ! 4) < lx (lm ! 2) then 1 else 0),
       (if 8 < length lm \<and> ly (lm ! 8) < ly (lm ! 6) then 1 else 0),
       (if 12 < length lm \<and> ly (lm ! 12) < ly (lm ! 10) then 1 else 0),
       (if 16 < length lm \<and> ly (lm ! 16) < ly (lm ! 14) then 1 else 0),
       (if 20 < length lm \<and> ly (lm ! 20) < ly (lm ! 18) then 1 else 0) ]
   \<and> get_finger_states lm = finger_states_from_landmarks lm"
  unfolding finger_states_from_landmarks_def get_finger_states_def finger_open_unfold
  by (simp add: upt_1_5 tips_def)


lemma finger_open_le1: "finger_open c lm k \<le> 1"
  by (simp add: finger_open_unfold)

lemma finger_states_expl:
  "finger_states_from_landmarks lm =
     [finger_open lx lm 0, finger_open ly lm 1, finger_open ly lm 2,
      finger_open ly lm 3, finger_open ly lm 4]"
  by (simp add: finger_states_from_landmarks_def upt_1_5)

lemma get_finger_states_eq: "get_finger_states lm = finger_states_from_landmarks lm"
  by (simp add: finger_states_from_landmarks_def get_finger_states_def)

lemma pinch_total:
  "fs = finger_states_from_landmarks lm \<Longrightarrow>
   fs ! 0 = 1 \<and> fs ! 1 = 1 \<and> sum_list (drop 2 fs) = 0 \<Longrightarrow> sum_list fs = 2"
  by (simp add: finger_states_expl)

lemma motion_cases:
  "fired (update_motion_and_detect f dx dy s) = [] \<or>
   (\<exists>g. is_motion g \<and> fired (update_motion_and_detect f dx dy s) = [g]
        \<and> raised (update_motion_and_detect f dx dy s) = None
        \<and> \<not> t_detect f - last_action_time s < COOLDOWN
        \<and> last_action_time (state_of (update_motion_and_detect f dx dy s)) = t_detect f)"
  by (simp add: update_motion_and_detect_def Let_def nothing_def raise_def fire_motion_def is_motion_def)

lemma motion_keeps:
  "copy_confirmed (state_of (update_motion_and_detect f dx dy s)) = copy_confirmed s"
  "fist_start (state_of (update_motion_and_detect f dx dy s)) = fist_start s"
  "open_start (state_of (update_motion_and_detect f dx dy s)) = open_start s"
  "shared_clipboard (state_of (update_motion_and_detect f dx dy s)) = shared_clipboard s"
  "pos_history (state_of (update_motion_and_detect f dx dy s)) = pos_history s"
  by (simp_all add: update_motion_and_detect_def Let_def nothing_def raise_def fire_motion_def)

lemma motion_closed:
  "t_detect f - last_action_time s < COOLDOWN \<Longrightarrow>
   fired (update_motion_and_detect f dx dy s) = [] \<and>
   raised (update_motion_and_detect f dx dy s) = None \<and>
   last_action_time (state_of (update_motion_and_detect f dx dy s)) = last_action_time s"
  by (simp add: update_motion_and_detect_def Let_def nothing_def)

lemma copy_block_cases:
  "(snd (copy_block f n now s) = [] \<and>
      copy_confirmed (fst (copy_block f n now s)) = copy_confirmed s) \<or>
   (snd (copy_block f n now s) = [Copy] \<and> n = 0 \<and> \<not> copy_confirmed s \<and>
      copy_confirmed (fst (copy_block f n now s)))"
  by (simp add: copy_block_def copy_action_def Let_def say_def split: option.split)

lemma paste_block_cases:
  "(snd (paste_block f n now s) = [] \<and>
      copy_confirmed (fst (paste_block f n now s)) = copy_confirmed s) \<or>
   (snd (paste_block f n now s) = [Paste] \<and> n = 5 \<and> copy_confirmed s \<and>
      \<not> copy_confirmed (fst (paste_block f n now s)))"
  by (simp add: paste_block_def paste_action_def safe_set_local_clipboard_def Let_def say_def
      split: option.split)

lemma screenshot_block_cases:
  "(snd (screenshot_block f fs th idx now s) = [] \<or>
    (snd (screenshot_block f fs th idx now s) = [Screenshot] \<and>
     fs ! 0 = 1 \<and> fs ! 1 = 1 \<and> sum_list (drop 2 fs) = 0)) \<and>
   copy_confirmed (fst (screenshot_block f fs th idx now s)) = copy_confirmed s"
  by (simp add: screenshot_block_def say_def split: option.split)

lemma blocks_keep_clock:
  "last_action_time (fst (copy_block f n now s)) = last_action_time s"
  "last_action_time (fst (paste_block f n now s)) = last_action_time s"
  "last_action_time (fst (screenshot_block f fs th idx now s)) = last_action_time s"
  by (simp_all add: copy_block_def copy_action_def paste_block_def paste_action_def
      screenshot_block_def safe_set_local_clipboard_def Let_def say_def split: option.split)

lemma checks_cases:
  "(snd (hold_and_pinch_checks f lm th idx s) = [] \<and>
      copy_confirmed (fst (hold_and_pinch_checks f lm th idx s)) = copy_confirmed s) \<or>
   (snd (hold_and_pinch_checks f lm th idx s) = [Copy] \<and>
      sum_list (finger_states_from_landmarks lm) = 0 \<and>
      \<not> copy_confirmed s \<and> copy_confirmed (fst (hold_and_pinch_checks f lm th idx s))) \<or>
   (snd (hold_and_pinch_checks f lm th idx s) = [Paste] \<and>
      sum_list (finger_states_from_landmarks lm) = 5 \<and>
      copy_confirmed s \<and> \<not> copy_confirmed (fst (hold_and_pinch_checks f lm th idx s))) \<or>
   (snd (hold_and_pinch_checks f lm th idx s) = [Screenshot] \<and>
      copy_confirmed (fst (hold_and_pinch_checks f lm th idx s)) = copy_confirmed s)"
proof -
  define fs where "fs = finger_states_from_landmarks lm"
  define n where "n = sum_list fs"
  define c where "c = copy_block f n (t_frame f) s"
  define p where "p = paste_block f n (t_frame f) (fst c)"
  define sc where "sc = screenshot_block f fs th idx (t_frame f) (fst p)"
  have r: "hold_and_pinch_checks f lm th idx s = (fst sc, snd c @ snd p @ snd sc)"
    by (simp add: hold_and_pinch_checks_def Let_def fs_def n_def c_def p_def sc_def)
  have two: "fs ! 0 = 1 \<and> fs ! 1 = 1 \<and> sum_list (drop 2 fs) = 0 \<Longrightarrow> n = 2"
    unfolding n_def using pinch_total [OF fs_def] by simp
  note cc = copy_block_cases [of f n "t_frame f" s, folded c_def]
  note pc = paste_block_cases [of f n "t_frame f" "fst c", folded p_def]
  note sc = screenshot_block_cases [of f fs th idx "t_frame f" "fst p", folded sc_def]
  show ?thesis
    unfolding r fs_def [symmetric] n_def [symmetric]
    using cc pc sc two by auto
qed

lemma landmark_at_8_4:
  "landmark_at lm 8 = Inr a \<Longrightarrow> \<exists>b. landmark_at lm 4 = Inr b"
  by (simp add: landmark_at_def split: if_splits)

lemma landmark_at_Inl: "landmark_at lm i = Inl e \<Longrightarrow> e = IndexError"
  by (simp add: landmark_at_def split: if_splits)

text \<open>The four ways in which one iteration of main_loop can go.\<close>

lemma main_loop_frame_cases [case_names no_hand short_hand motion_raised full]:
  obtains
    (no_hand) "hand_lm f = None"
      "main_loop_frame f s =
         nothing (s\<lparr>pos_history := [], fist_start := None, open_start := None\<rparr>)"
  | (short_hand) lm where "hand_lm f = Some lm"
      "main_loop_frame f s = raise IndexError s"
  | (motion_raised) lm m e where "hand_lm f = Some lm"
      "m = update_motion_and_detect f
             (fst (window_delta (push_history (lx (lm ! 8), ly (lm ! 8)) (pos_history s))))
             (snd (window_delta (push_history (lx (lm ! 8), ly (lm ! 8)) (pos_history s))))
             (s\<lparr>pos_history := push_history (lx (lm ! 8), ly (lm ! 8)) (pos_history s)\<rparr>)"
      "raised m = Some e" "main_loop_frame f s = m"
  | (full) lm m r where "hand_lm f = Some lm" "8 < length lm"
      "m = update_motion_and_detect f
             (fst (window_delta (push_history (lx (lm ! 8), ly (lm ! 8)) (pos_history s))))
             (snd (window_delta (push_history (lx (lm ! 8), ly (lm ! 8)) (pos_history s))))
             (s\<lparr>pos_history := push_history (lx (lm ! 8), ly (lm ! 8)) (pos_history s)\<rparr>)"
      "raised m = None"
      "r = hold_and_pinch_checks f lm (lm ! 4) (lm ! 8) (state_of m)"
      "main_loop_frame f s = \<lparr> state_of = fst r, fired = fired m @ snd r, raised = None \<rparr>"
proof (cases "hand_lm f")
  case None
  then show ?thesis using no_hand by (simp add: main_loop_frame_def)
next
  case (Some lm)
  show ?thesis
  proof (cases "8 < length lm")
    case False
    then show ?thesis using Some short_hand
      by (simp add: main_loop_frame_def landmark_at_def)
  next
    case True
    define m where "m = update_motion_and_detect f
             (fst (window_delta (push_history (lx (lm ! 8), ly (lm ! 8)) (pos_history s))))
             (snd (window_delta (push_history (lx (lm ! 8), ly (lm ! 8)) (pos_history s))))
             (s\<lparr>pos_history := push_history (lx (lm ! 8), ly (lm ! 8)) (pos_history s)\<rparr>)"
    show ?thesis
    proof (cases "raised m")
      case None
      have "main_loop_frame f s =
          \<lparr> state_of = fst (hold_and_pinch_checks f lm (lm ! 4) (lm ! 8) (state_of m)),
            fired = fired m @ snd (hold_and_pinch_checks f lm (lm ! 4) (lm ! 8) (state_of m)),
            raised = None \<rparr>"
        using Some True None [unfolded m_def]
        by (simp add: main_loop_frame_def landmark_at_def Let_def m_def [symmetric])
      then show ?thesis using full [OF Some True m_def None refl] by simp
    next
      case (Some e)
      have "main_loop_frame f s = m"
        using \<open>hand_lm f = Some lm\<close> True Some [unfolded m_def]
        by (simp add: main_loop_frame_def landmark_at_def Let_def m_def [symmetric])
      then show ?thesis using motion_raised [OF \<open>hand_lm f = Some lm\<close> m_def Some] by simp
    qed
  qed
qed

lemma motion_raised_silent:
  "raised (update_motion_and_detect f dx dy s) = Some e \<Longrightarrow>
   fired (update_motion_and_detect f dx dy s) = []"
  using motion_cases [of f dx dy s] by auto

lemma frame_events:
  "length (filter is_motion (fired (main_loop_frame f s))) \<le> 1 \<and>
   length (filter (\<lambda>g. \<not> is_motion g) (fired (main_loop_frame f s))) \<le> 1"
proof (cases rule: main_loop_frame_cases [of f s])
  case no_hand
  then show ?thesis by (simp add: nothing_def)
next
  case (short_hand lm)
  then show ?thesis by (simp add: raise_def)
next
  case (motion_raised lm m e)
  then show ?thesis using motion_raised_silent [of f _ _ _ e] by simp
next
  case (full lm m r)
  have a: "fired m = [] \<or> (\<exists>g. is_motion g \<and> fired m = [g])"
    unfolding full(3) using motion_cases by blast
  have b: "snd r = [] \<or> snd r = [Copy] \<or> snd r = [Paste] \<or> snd r = [Screenshot]"
    unfolding full(5) using checks_cases [of f lm "lm ! 4" "lm ! 8" "state_of m"] by blast
  show ?thesis unfolding full(6) using a b by (auto simp: is_motion_def)
qed


subsection \<open>Proofs: the blocks of \<^verbatim>\<open>gesture_file_server.py\<close>\<close>

lemma detect_cases:
  "fired (detect_motion_gesture f x y s) = [] \<or>
   (\<exists>g. is_motion g \<and> fired (detect_motion_gesture f x y s) = [g]
        \<and> raised (detect_motion_gesture f x y s) = None
        \<and> t_detect f - last_action_time_s s > COOLDOWN_s
        \<and> last_action_time_s (state_of (detect_motion_gesture f x y s)) = t_detect f)"
  by (simp add: detect_motion_gesture_def Let_def nothing_def raise_def fire_motion_s_def
      is_motion_def)

lemma detect_keeps:
  "copy_done (state_of (detect_motion_gesture f x y s)) = copy_done s"
  "fist_start_time (state_of (detect_motion_gesture f x y s)) = fist_start_time s"
  "open_start_time (state_of (detect_motion_gesture f x y s)) = open_start_time s"
  "shared_clipboard_s (state_of (detect_motion_gesture f x y s)) = shared_clipboard_s s"
  by (simp_all add: detect_motion_gesture_def Let_def nothing_def raise_def fire_motion_s_def)

lemma detect_closed:
  "\<not> t_detect f - last_action_time_s s > COOLDOWN_s \<Longrightarrow>
   fired (detect_motion_gesture f x y s) = [] \<and>
   last_action_time_s (state_of (detect_motion_gesture f x y s)) = last_action_time_s s"
  by (simp add: detect_motion_gesture_def Let_def nothing_def raise_def)

lemma copy_block_s_cases:
  "(snd (copy_block_s f n now s) = [] \<and>
      copy_done (fst (copy_block_s f n now s)) = copy_done s) \<or>
   (snd (copy_block_s f n now s) = [Copy] \<and> n = 0 \<and> \<not> copy_done s \<and>
      copy_done (fst (copy_block_s f n now s)))"
  by (simp add: copy_block_s_def copy_action_s_def Let_def say_s_def split: option.split)

lemma paste_block_s_cases:
  "(snd (paste_block_s f n now s) = [] \<and>
      copy_done (fst (paste_block_s f n now s)) = copy_done s) \<or>
   (snd (paste_block_s f n now s) = [Paste] \<and> n = 5 \<and> copy_done s \<and>
      \<not> copy_done (fst (paste_block_s f n now s)))"
  by (simp add: paste_block_s_def paste_action_s_def Let_def say_s_def split: option.split)

lemma screenshot_block_s_cases:
  "(snd (screenshot_block_s f fs th idx now s) = [] \<or>
    (snd (screenshot_block_s f fs th idx now s) = [Screenshot] \<and>
     fs ! 0 = 1 \<and> fs ! 1 = 1 \<and> sum_list (drop 2 fs) = 0)) \<and>
   copy_done (fst (screenshot_block_s f fs th idx now s)) = copy_done s"
  by (simp add: screenshot_block_s_def Let_def say_s_def split: option.split)

lemma blocks_keep_clock_s:
  "last_action_time_s (fst (copy_block_s f n now s)) = last_action_time_s s"
  "last_action_time_s (fst (paste_block_s f n now s)) = last_action_time_s s"
  "last_action_time_s (fst (screenshot_block_s f fs th idx now s)) = last_action_time_s s"
  by (simp_all add: copy_block_s_def copy_action_s_def paste_block_s_def paste_action_s_def
      screenshot_block_s_def Let_def say_s_def split: option.split)

lemma checks_s_cases:
  "(snd (hold_and_pinch_checks_s f lm th idx s) = [] \<and>
      copy_done (fst (hold_and_pinch_checks_s f lm th idx s)) = copy_done s) \<or>
   (snd (hold_and_pinch_checks_s f lm th idx s) = [Copy] \<and>
      sum_list (finger_states_from_landmarks lm) = 0 \<and>
      \<not> copy_done s \<and> copy_done (fst (hold_and_pinch_checks_s f lm th idx s))) \<or>
   (snd (hold_and_pinch_checks_s f lm th idx s) = [Paste] \<and>
      sum_list (finger_states_from_landmarks lm) = 5 \<and>
      copy_done s \<and> \<not> copy_done (fst (hold_and_pinch_checks_s f lm th idx s))) \<or>
   (snd (hold_and_pinch_checks_s f lm th idx s) = [Screenshot] \<and>
      copy_done (fst (hold_and_pinch_checks_s f lm th idx s)) = copy_done s)"
proof -
  define fs where "fs = finger_states_from_landmarks lm"
  define n where "n = sum_list fs"
  define c where "c = copy_block_s f n (t_frame f) s"
  define p where "p = paste_block_s f n (t_frame f) (fst c)"
  define sc where "sc = screenshot_block_s f fs th idx (t_frame f) (fst p)"
  have r: "hold_and_pinch_checks_s f lm th idx s = (fst sc, snd c @ snd p @ snd sc)"
    by (simp add: hold_and_pinch_checks_s_def get_finger_states_eq Let_def
        fs_def n_def c_def p_def sc_def)
  have two: "fs ! 0 = 1 \<and> fs ! 1 = 1 \<and> sum_list (drop 2 fs) = 0 \<Longrightarrow> n = 2"
    unfolding n_def using pinch_total [OF fs_def] by simp
  note cc = copy_block_s_cases [of f n "t_frame f" s, folded c_def]
  note pc = paste_block_s_cases [of f n "t_frame f" "fst c", folded p_def]
  note sc = screenshot_block_s_cases [of f fs th idx "t_frame f" "fst p", folded sc_def]
  show ?thesis
    unfolding r fs_def [symmetric] n_def [symmetric]
    using cc pc sc two by auto
qed

lemma checks_keep_clock:
  "last_action_time (fst (hold_and_pinch_checks f lm th idx s)) = last_action_time s"
  by (simp add: hold_and_pinch_checks_def Let_def blocks_keep_clock)

lemma checks_s_keep_clock:
  "last_action_time_s (fst (hold_and_pinch_checks_s f lm th idx s)) = last_action_time_s s"
  by (simp add: hold_and_pinch_checks_s_def Let_def blocks_keep_clock_s)

text \<open>The three ways in which one iteration of main can go.\<close>

lemma main_frame_cases [case_names no_hand short_hand full]:
  obtains
    (no_hand) "hand_lm f = None" "main_frame f s = nothing s"
  | (short_hand) lm where "hand_lm f = Some lm" "main_frame f s = raise IndexError s"
  | (full) lm r m where "hand_lm f = Some lm" "8 < length lm"
      "r = hold_and_pinch_checks_s f lm (lm ! 4) (lm ! 8) s"
      "m = detect_motion_gesture f (lx (lm ! 8)) (ly (lm ! 8)) (fst r)"
      "main_frame f s = \<lparr> state_of = state_of m, fired = snd r @ fired m, raised = raised m \<rparr>"
proof (cases "hand_lm f")
  case None
  then show ?thesis using no_hand by (simp add: main_frame_def)
next
  case (Some lm)
  show ?thesis
  proof (cases "8 < length lm")
    case False
    then show ?thesis using Some short_hand
      by (simp add: main_frame_def landmark_at_def)
  next
    case True
    have "main_frame f s =
        \<lparr> state_of = state_of (detect_motion_gesture f (lx (lm ! 8)) (ly (lm ! 8))
             (fst (hold_and_pinch_checks_s f lm (lm ! 4) (lm ! 8) s))),
          fired = snd (hold_and_pinch_checks_s f lm (lm ! 4) (lm ! 8) s) @
             fired (detect_motion_gesture f (lx (lm ! 8)) (ly (lm ! 8))
               (fst (hold_and_pinch_checks_s f lm (lm ! 4) (lm ! 8) s))),
          raised = raised (detect_motion_gesture f (lx (lm ! 8)) (ly (lm ! 8))
             (fst (hold_and_pinch_checks_s f lm (lm ! 4) (lm ! 8) s))) \<rparr>"
      using Some True by (simp add: main_frame_def landmark_at_def Let_def)
    then show ?thesis using full [OF Some True refl refl] by simp
  qed
qed

lemma frame_events_s:
  "length (filter is_motion (fired (main_frame f s))) \<le> 1 \<and>
   length (filter (\<lambda>g. \<not> is_motion g) (fired (main_frame f s))) \<le> 1"
proof (cases rule: main_frame_cases [of f s])
  case no_hand
  then show ?thesis by (simp add: nothing_def)
next
  case (short_hand lm)
  then show ?thesis by (simp add: raise_def)
next
  case (full lm r m)
  have a: "fired m = [] \<or> (\<exists>g. is_motion g \<and> fired m = [g])"
    unfolding full(4) using detect_cases by blast
  have b: "snd r = [] \<or> snd r = [Copy] \<or> snd r = [Paste] \<or> snd r = [Screenshot]"
    unfolding full(3) using checks_s_cases [of f lm "lm ! 4" "lm ! 8" s] by blast
  show ?thesis unfolding full(5) using a b by (auto simp: is_motion_def)
qed


subsection \<open>Proofs: evaluating concrete frames\<close>

lemmas cfg = SMOOTHING_WINDOW_def EMA_ALPHA_def SCROLL_THRESHOLD_def TAB_THRESHOLD_def
  COOLDOWN_def GESTURE_HOLD_TIME_def SCREENSHOT_COOLDOWN_def

lemmas cfg_s = SMOOTHING_WINDOW_s_def SCROLL_THRESHOLD_s_def TAB_THRESHOLD_s_def
  COOLDOWN_s_def GESTURE_HOLD_TIME_s_def SCREENSHOT_COOLDOWN_s_def

lemmas frame_defs = main_loop_frame_def hold_and_pinch_checks_def
  update_motion_and_detect_def copy_block_def paste_block_def screenshot_block_def
  copy_action_def paste_action_def push_history_def window_delta_def fire_motion_def
  say_def safe_copy_to_shared_def safe_set_local_clipboard_def label_of_def

lemmas frame_defs_s = main_frame_def hold_and_pinch_checks_s_def
  detect_motion_gesture_def copy_block_s_def paste_block_s_def screenshot_block_s_def
  copy_action_s_def paste_action_s_def fire_motion_s_def say_s_def text_of_def

lemmas outcome_defs = nothing_def raise_def

lemma still_hand_states: "finger_states_from_landmarks (still_hand x y) = [0, 0, 0, 0, 0]"
  by (simp add: finger_states_expl finger_open_unfold tips_def still_hand_def)

lemma still_hand_at:
  "i < 21 \<Longrightarrow> landmark_at (still_hand x y) i = Inr \<lparr> lx = x, ly = y, lz = 0 \<rparr>"
  by (simp add: landmark_at_def still_hand_def)

lemma open_hand_states: "finger_states_from_landmarks (open_hand x y) = [1, 1, 1, 1, 1]"
  by (simp add: finger_states_expl finger_open_unfold tips_def open_hand_def)

lemma open_hand_at:
  "landmark_at (open_hand x y) 8 = Inr \<lparr> lx = x, ly = y, lz = 0 \<rparr>"
  "landmark_at (open_hand x y) 4 = Inr \<lparr> lx = x - 0.1, ly = y, lz = 0 \<rparr>"
  by (simp_all add: landmark_at_def open_hand_def tips_def)

lemmas hands = still_hand_states still_hand_at open_hand_states open_hand_at
  get_finger_states_eq

lemma fist_then_lift:
  "main_loop_frame (frame_at (Some (still_hand 0.5 0.9)) 100) init_state =
     \<lparr> state_of = init_state\<lparr>pos_history := [(0.5, 0.9)], fist_start := Some 100\<rparr>,
       fired = [], raised = None \<rparr>"
  "fired (main_loop_frame (frame_at (Some (still_hand 0.5 0.4)) 100.5)
     (init_state\<lparr>pos_history := [(0.5, 0.9)], fist_start := Some 100\<rparr>)) = [ScrollUp, Copy]"
  "raised (main_loop_frame (frame_at (Some (still_hand 0.5 0.4)) 100.5)
     (init_state\<lparr>pos_history := [(0.5, 0.9)], fist_start := Some 100\<rparr>)) = None"
  by (simp_all add: frame_defs outcome_defs cfg hands frame_at_def init_state_def Let_def
      split del: if_split cong: if_weak_cong)

lemma fist_then_lift_s:
  "main_frame (frame_at (Some (still_hand 0.5 0.9)) 100) init_state_s =
     \<lparr> state_of = init_state_s\<lparr>x_history := [0.5], y_history := [0.9],
          fist_start_time := Some 100\<rparr>,
       fired = [], raised = None \<rparr>"
  "fired (main_frame (frame_at (Some (still_hand 0.5 0.4)) 100.6)
     (init_state_s\<lparr>x_history := [0.5], y_history := [0.9], fist_start_time := Some 100\<rparr>))
     = [Copy, ScrollUp]"
  "raised (main_frame (frame_at (Some (still_hand 0.5 0.4)) 100.6)
     (init_state_s\<lparr>x_history := [0.5], y_history := [0.9], fist_start_time := Some 100\<rparr>))
     = None"
  by (simp_all add: frame_defs_s outcome_defs cfg_s hands frame_at_def init_state_s_def
      Let_def split del: if_split cong: if_weak_cong)

text \<open>
  C1 (as the code has it). Per iteration, at most one motion gesture (scroll or tab)
  fires and at most one of Copy, Paste and Screenshot fires, in both files; the motion
  check and the hold and pinch checks are independent of each other, so one gesture of
  each kind can fire in the same frame.
\<close>

theorem C1_events_per_frame:
  "length (filter is_motion (fired (main_loop_frame f s))) \<le> 1 \<and>
   length (filter (\<lambda>g. \<not> is_motion g) (fired (main_loop_frame f s))) \<le> 1 \<and>
   length (filter is_motion (fired (main_frame f s'))) \<le> 1 \<and>
   length (filter (\<lambda>g. \<not> is_motion g) (fired (main_frame f s'))) \<le> 1"
  using frame_events [of f s] frame_events_s [of f s'] by simp

text \<open>
  C1 fails as stated: a fist that is lifted while it is held fires ScrollUp and Copy in
  the same iteration, from the initial state of either program.
\<close>

theorem C1_two_events_in_one_frame:
  "fst (snd (run_main_loop init_state
      [frame_at (Some (still_hand 0.5 0.9)) 100,
       frame_at (Some (still_hand 0.5 0.4)) 100.5])) = [[], [ScrollUp, Copy]] \<and>
   fst (snd (run_main init_state_s
      [frame_at (Some (still_hand 0.5 0.9)) 100,
       frame_at (Some (still_hand 0.5 0.4)) 100.6])) = [[], [Copy, ScrollUp]]"
  by (simp only: run_main_loop.simps run_main.simps fist_then_lift fist_then_lift_s Let_def
      outcome.simps option.case fst_conv snd_conv simp_thms)


subsection \<open>Proofs: the copy-paste handoff\<close>

lemma handoff_append:
  "handoff_ok c (xs @ ys) = (handoff_ok c xs \<and> handoff_ok (flag_after c xs) ys)"
  by (induction xs arbitrary: c) auto

lemma flag_after_append: "flag_after c (xs @ ys) = flag_after (flag_after c xs) ys"
  by (induction xs arbitrary: c) auto

lemma handoff_pending_no_copy:
  "handoff_ok True gs \<Longrightarrow> Paste \<notin> set gs \<Longrightarrow> Copy \<notin> set gs"
  by (induction gs) (auto split: if_splits)

lemma handoff_one_copy:
  "handoff_ok c gs \<Longrightarrow> Paste \<notin> set gs \<Longrightarrow> count_of Copy gs \<le> 1"
proof (induction gs arbitrary: c)
  case Nil
  then show ?case by (simp add: count_of_def)
next
  case (Cons g gs)
  show ?case
  proof (cases "g = Copy")
    case True
    with Cons.prems have "handoff_ok True gs" "Paste \<notin> set gs" by auto
    then have "Copy \<notin> set gs" by (rule handoff_pending_no_copy)
    then have "filter (\<lambda>x. x = Copy) gs = []" by (auto simp: filter_empty_conv)
    with True show ?thesis by (simp add: count_of_def)
  next
    case False
    with Cons.prems have "handoff_ok c gs" "Paste \<notin> set gs" by (auto split: if_splits)
    then have "count_of Copy gs \<le> 1" by (rule Cons.IH)
    with False show ?thesis by (simp add: count_of_def)
  qed
qed

lemma motion_not_hold: "is_motion g \<Longrightarrow> g \<noteq> Copy \<and> g \<noteq> Paste \<and> g \<noteq> Screenshot"
  by (auto simp: is_motion_def)

text \<open>What one iteration does to the confirmation flag, \<^verbatim>\<open>gesture_drop.py\<close>.\<close>

lemma frame_flag:
  "\<exists>ms hs. fired (main_loop_frame f s) = ms @ hs \<and> (\<forall>g \<in> set ms. is_motion g) \<and>
     ((hs = [] \<and> copy_confirmed (state_of (main_loop_frame f s)) = copy_confirmed s) \<or>
      (hs = [Copy] \<and> \<not> copy_confirmed s \<and> copy_confirmed (state_of (main_loop_frame f s))) \<or>
      (hs = [Paste] \<and> copy_confirmed s \<and> \<not> copy_confirmed (state_of (main_loop_frame f s))
         \<and> \<not> shows_fist f) \<or>
      (hs = [Screenshot] \<and> copy_confirmed (state_of (main_loop_frame f s)) = copy_confirmed s))"
proof (cases rule: main_loop_frame_cases [of f s])
  case no_hand
  then show ?thesis by (simp add: nothing_def)
next
  case (short_hand lm)
  then show ?thesis by (simp add: raise_def)
next
  case (motion_raised lm m e)
  have "fired m = []" unfolding motion_raised(2)
    using motion_raised(2,3) by (intro motion_raised_silent) simp
  moreover have "copy_confirmed (state_of m) = copy_confirmed s"
    unfolding motion_raised(2) by (simp add: motion_keeps)
  ultimately show ?thesis using motion_raised(4) by simp
next
  case (full lm m r)
  have a: "\<forall>g \<in> set (fired m). is_motion g"
    unfolding full(3) using motion_cases [of f] by (metis empty_iff empty_set set_ConsD)
  have k: "copy_confirmed (state_of m) = copy_confirmed s"
    unfolding full(3) by (simp add: motion_keeps)
  have nf: "sum_list (finger_states_from_landmarks lm) = 5 \<Longrightarrow> \<not> shows_fist f"
    using full(1) by (simp add: shows_fist_def)
  have b: "(snd r = [] \<and> copy_confirmed (fst r) = copy_confirmed s) \<or>
      (snd r = [Copy] \<and> \<not> copy_confirmed s \<and> copy_confirmed (fst r)) \<or>
      (snd r = [Paste] \<and> copy_confirmed s \<and> \<not> copy_confirmed (fst r) \<and> \<not> shows_fist f) \<or>
      (snd r = [Screenshot] \<and> copy_confirmed (fst r) = copy_confirmed s)"
    unfolding full(5) using checks_cases [of f lm "lm ! 4" "lm ! 8" "state_of m"] k nf
    by auto
  show ?thesis
    apply (rule exI [of _ "fired m"], rule exI [of _ "snd r"])
    using a b by (simp add: full(6))
qed

lemma frame_handoff:
  "handoff_ok (copy_confirmed s) (fired (main_loop_frame f s)) \<and>
   copy_confirmed (state_of (main_loop_frame f s)) =
     flag_after (copy_confirmed s) (fired (main_loop_frame f s))"
proof -
  have m: "(\<forall>g \<in> set ms. is_motion g) \<Longrightarrow> handoff_ok c ms \<and> flag_after c ms = c" for ms c
    by (induction ms) (auto simp: is_motion_def)
  from frame_flag [of f s] show ?thesis
    by (auto simp: handoff_append flag_after_append m)
qed

lemma frame_flag_events:
  "(Copy \<in> set (fired (main_loop_frame f s)) \<longrightarrow>
      \<not> copy_confirmed s \<and> copy_confirmed (state_of (main_loop_frame f s))) \<and>
   (Paste \<in> set (fired (main_loop_frame f s)) \<longrightarrow>
      copy_confirmed s \<and> \<not> copy_confirmed (state_of (main_loop_frame f s))) \<and>
   (copy_confirmed (state_of (main_loop_frame f s)) \<and> \<not> copy_confirmed s \<longrightarrow>
      Copy \<in> set (fired (main_loop_frame f s))) \<and>
   (shows_fist f \<longrightarrow> Paste \<notin> set (fired (main_loop_frame f s)))"
  using frame_flag [of f s] by (auto dest: motion_not_hold)

lemma run_handoff:
  "handoff_ok (copy_confirmed s) (concat (fst (snd (run_main_loop s fs))))"
proof (induction fs arbitrary: s)
  case Nil
  show ?case by simp
next
  case (Cons f fs)
  note h = frame_handoff [of s f]
  show ?case
  proof (cases "raised (main_loop_frame f s)")
    case None
    then show ?thesis
      using h Cons.IH [of "state_of (main_loop_frame f s)"]
      by (simp add: Let_def handoff_append)
  next
    case (Some e)
    then show ?thesis using h by (simp add: Let_def)
  qed
qed

lemma run_fist_no_paste:
  "\<forall>f \<in> set fs. shows_fist f \<Longrightarrow> Paste \<notin> set (concat (fst (snd (run_main_loop s fs))))"
proof (induction fs arbitrary: s)
  case Nil
  show ?case by simp
next
  case (Cons f fs)
  then have p: "Paste \<notin> set (fired (main_loop_frame f s))"
    using frame_flag_events [of f s] by simp
  show ?case
  proof (cases "raised (main_loop_frame f s)")
    case None
    then show ?thesis
      using p Cons.IH [of "state_of (main_loop_frame f s)"] Cons.prems
      by (simp add: Let_def)
  next
    case (Some e)
    then show ?thesis using p by (simp add: Let_def)
  qed
qed


text \<open>What one iteration does to the confirmation flag, \<^verbatim>\<open>gesture_file_server.py\<close>.\<close>

lemma frame_flag_s:
  "\<exists>hs ms. fired (main_frame f s) = hs @ ms \<and> (\<forall>g \<in> set ms. is_motion g) \<and>
     ((hs = [] \<and> copy_done (state_of (main_frame f s)) = copy_done s) \<or>
      (hs = [Copy] \<and> \<not> copy_done s \<and> copy_done (state_of (main_frame f s))) \<or>
      (hs = [Paste] \<and> copy_done s \<and> \<not> copy_done (state_of (main_frame f s))
         \<and> \<not> shows_fist f) \<or>
      (hs = [Screenshot] \<and> copy_done (state_of (main_frame f s)) = copy_done s))"
proof (cases rule: main_frame_cases [of f s])
  case no_hand
  then show ?thesis by (simp add: nothing_def)
next
  case (short_hand lm)
  then show ?thesis by (simp add: raise_def)
next
  case (full lm r m)
  have a: "\<forall>g \<in> set (fired m). is_motion g"
    unfolding full(4) using detect_cases [of f] by (metis empty_iff empty_set set_ConsD)
  have k: "copy_done (state_of m) = copy_done (fst r)"
    unfolding full(4) by (simp add: detect_keeps)
  have nf: "sum_list (finger_states_from_landmarks lm) = 5 \<Longrightarrow> \<not> shows_fist f"
    using full(1) by (simp add: shows_fist_def)
  have b: "(snd r = [] \<and> copy_done (state_of m) = copy_done s) \<or>
      (snd r = [Copy] \<and> \<not> copy_done s \<and> copy_done (state_of m)) \<or>
      (snd r = [Paste] \<and> copy_done s \<and> \<not> copy_done (state_of m) \<and> \<not> shows_fist f) \<or>
      (snd r = [Screenshot] \<and> copy_done (state_of m) = copy_done s)"
    unfolding k full(3) using checks_s_cases [of f lm "lm ! 4" "lm ! 8" s] nf
    by auto
  show ?thesis
    apply (rule exI [of _ "snd r"], rule exI [of _ "fired m"])
    using a b by (simp add: full(5))
qed

lemma frame_handoff_s:
  "handoff_ok (copy_done s) (fired (main_frame f s)) \<and>
   copy_done (state_of (main_frame f s)) = flag_after (copy_done s) (fired (main_frame f s))"
proof -
  have m: "(\<forall>g \<in> set ms. is_motion g) \<Longrightarrow> handoff_ok c ms \<and> flag_after c ms = c" for ms c
    by (induction ms) (auto simp: is_motion_def)
  from frame_flag_s [of f s] show ?thesis
    by (auto simp: handoff_append flag_after_append m)
qed

lemma frame_flag_events_s:
  "(Copy \<in> set (fired (main_frame f s)) \<longrightarrow>
      \<not> copy_done s \<and> copy_done (state_of (main_frame f s))) \<and>
   (Paste \<in> set (fired (main_frame f s)) \<longrightarrow>
      copy_done s \<and> \<not> copy_done (state_of (main_frame f s))) \<and>
   (copy_done (state_of (main_frame f s)) \<and> \<not> copy_done s \<longrightarrow>
      Copy \<in> set (fired (main_frame f s))) \<and>
   (shows_fist f \<longrightarrow> Paste \<notin> set (fired (main_frame f s)))"
  using frame_flag_s [of f s] by (auto dest: motion_not_hold)

lemma run_handoff_s:
  "handoff_ok (copy_done s) (concat (fst (snd (run_main s fs))))"
proof (induction fs arbitrary: s)
  case Nil
  show ?case by simp
next
  case (Cons f fs)
  note h = frame_handoff_s [of s f]
  show ?case
  proof (cases "raised (main_frame f s)")
    case None
    then show ?thesis
      using h Cons.IH [of "state_of (main_frame f s)"]
      by (simp add: Let_def handoff_append)
  next
    case (Some e)
    then show ?thesis using h by (simp add: Let_def)
  qed
qed

lemma run_fist_no_paste_s:
  "\<forall>f \<in> set fs. shows_fist f \<Longrightarrow> Paste \<notin> set (concat (fst (snd (run_main s fs))))"
proof (induction fs arbitrary: s)
  case Nil
  show ?case by simp
next
  case (Cons f fs)
  then have p: "Paste \<notin> set (fired (main_frame f s))"
    using frame_flag_events_s [of f s] by simp
  show ?case
  proof (cases "raised (main_frame f s)")
    case None
    then show ?thesis
      using p Cons.IH [of "state_of (main_frame f s)"] Cons.prems
      by (simp add: Let_def)
  next
    case (Some e)
    then show ?thesis using p by (simp add: Let_def)
  qed
qed

text \<open>
  C2. In every run of either loop, from any state, the Copy and Paste events hand
  over correctly from the state's confirmation flag: a Copy fires only with the flag
  unset and sets it, a Paste fires only with the flag set and clears it, so the two
  alternate, and from the initial state (flag unset) the first of them is a Copy.
  Per iteration: Copy needs the flag unset and leaves it set; Paste needs it set and
  leaves it unset; only a Copy sets the flag. While every frame shows a fist, Copy
  fires at most once.
\<close>

theorem C2_copy_paste_handoff:
  "handoff_ok (copy_confirmed s) (concat (fst (snd (run_main_loop s fs)))) \<and>
   handoff_ok (copy_done s') (concat (fst (snd (run_main s' fs)))) \<and>
   ((\<forall>f \<in> set fs. shows_fist f) \<longrightarrow>
      count_of Copy (concat (fst (snd (run_main_loop s fs)))) \<le> 1 \<and>
      count_of Copy (concat (fst (snd (run_main s' fs)))) \<le> 1) \<and>
   (Copy \<in> set (fired (main_loop_frame f s)) \<longrightarrow>
      \<not> copy_confirmed s \<and> copy_confirmed (state_of (main_loop_frame f s))) \<and>
   (Paste \<in> set (fired (main_loop_frame f s)) \<longrightarrow>
      copy_confirmed s \<and> \<not> copy_confirmed (state_of (main_loop_frame f s))) \<and>
   (copy_confirmed (state_of (main_loop_frame f s)) \<and> \<not> copy_confirmed s \<longrightarrow>
      Copy \<in> set (fired (main_loop_frame f s))) \<and>
   (Copy \<in> set (fired (main_frame f s')) \<longrightarrow>
      \<not> copy_done s' \<and> copy_done (state_of (main_frame f s'))) \<and>
   (Paste \<in> set (fired (main_frame f s')) \<longrightarrow>
      copy_done s' \<and> \<not> copy_done (state_of (main_frame f s'))) \<and>
   (copy_done (state_of (main_frame f s')) \<and> \<not> copy_done s' \<longrightarrow>
      Copy \<in> set (fired (main_frame f s')))"
proof -
  have "(\<forall>f \<in> set fs. shows_fist f) \<longrightarrow>
      count_of Copy (concat (fst (snd (run_main_loop s fs)))) \<le> 1 \<and>
      count_of Copy (concat (fst (snd (run_main s' fs)))) \<le> 1"
    using handoff_one_copy [OF run_handoff [of s fs]] run_fist_no_paste [of fs s]
      handoff_one_copy [OF run_handoff_s [of s' fs]] run_fist_no_paste_s [of fs s']
    by blast
  then show ?thesis
    using run_handoff [of s fs] run_handoff_s [of s' fs]
      frame_flag_events [of f s] frame_flag_events_s [of f s']
    by blast
qed


lemma held_fist_copies:
  "fired (main_loop_frame (frame_at (Some (still_hand 0.5 0.9)) 100.6)
     (init_state\<lparr>fist_start := Some 100\<rparr>)) = [Copy]"
  "raised (main_loop_frame (frame_at (Some (still_hand 0.5 0.9)) 100.6)
     (init_state\<lparr>fist_start := Some 100\<rparr>)) = None"
  "copy_confirmed (state_of (main_loop_frame (frame_at (Some (still_hand 0.5 0.9)) 100.6)
     (init_state\<lparr>fist_start := Some 100\<rparr>)))"
  "fired (main_frame (frame_at (Some (still_hand 0.5 0.9)) 100.6)
     (init_state_s\<lparr>fist_start_time := Some 100\<rparr>)) = [Copy]"
  "raised (main_frame (frame_at (Some (still_hand 0.5 0.9)) 100.6)
     (init_state_s\<lparr>fist_start_time := Some 100\<rparr>)) = None"
  "copy_done (state_of (main_frame (frame_at (Some (still_hand 0.5 0.9)) 100.6)
     (init_state_s\<lparr>fist_start_time := Some 100\<rparr>)))"
  by (simp_all add: frame_defs frame_defs_s outcome_defs cfg cfg_s hands frame_at_def
      init_state_def init_state_s_def Let_def split del: if_split cong: if_weak_cong)

lemma held_palm_pastes:
  "fired (main_loop_frame (frame_at (Some (open_hand 0.5 0.5)) 101.6)
     (init_state\<lparr>open_start := Some 101, copy_confirmed := True\<rparr>)) = [Paste]"
  "\<not> copy_confirmed (state_of (main_loop_frame (frame_at (Some (open_hand 0.5 0.5)) 101.6)
     (init_state\<lparr>open_start := Some 101, copy_confirmed := True\<rparr>)))"
  "fired (main_frame (frame_at (Some (open_hand 0.5 0.5)) 101.6)
     (init_state_s\<lparr>open_start_time := Some 101, copy_done := True\<rparr>)) = [Paste]"
  "\<not> copy_done (state_of (main_frame (frame_at (Some (open_hand 0.5 0.5)) 101.6)
     (init_state_s\<lparr>open_start_time := Some 101, copy_done := True\<rparr>)))"
  by (simp_all add: frame_defs frame_defs_s outcome_defs cfg cfg_s hands frame_at_def
      init_state_def init_state_s_def Let_def split del: if_split cong: if_weak_cong)

lemma still_hand_shows_fist: "shows_fist (frame_at (Some (still_hand x y)) t)"
  by (simp add: shows_fist_def frame_at_def hands)

theorem C2_copy_paste_handoff_witness:
  "shows_fist (frame_at (Some (still_hand 0.5 0.9)) 100.6) \<and>
   count_of Copy (concat (fst (snd (run_main_loop (init_state\<lparr>fist_start := Some 100\<rparr>)
      [frame_at (Some (still_hand 0.5 0.9)) 100.6])))) \<le> 1 \<and>
   count_of Copy (concat (fst (snd (run_main (init_state_s\<lparr>fist_start_time := Some 100\<rparr>)
      [frame_at (Some (still_hand 0.5 0.9)) 100.6])))) \<le> 1 \<and>
   Copy \<in> set (fired (main_loop_frame (frame_at (Some (still_hand 0.5 0.9)) 100.6)
      (init_state\<lparr>fist_start := Some 100\<rparr>))) \<and>
   \<not> copy_confirmed (init_state\<lparr>fist_start := Some 100\<rparr>) \<and>
   copy_confirmed (state_of (main_loop_frame (frame_at (Some (still_hand 0.5 0.9)) 100.6)
      (init_state\<lparr>fist_start := Some 100\<rparr>))) \<and>
   Copy \<in> set (fired (main_frame (frame_at (Some (still_hand 0.5 0.9)) 100.6)
      (init_state_s\<lparr>fist_start_time := Some 100\<rparr>))) \<and>
   \<not> copy_done (init_state_s\<lparr>fist_start_time := Some 100\<rparr>) \<and>
   copy_done (state_of (main_frame (frame_at (Some (still_hand 0.5 0.9)) 100.6)
      (init_state_s\<lparr>fist_start_time := Some 100\<rparr>))) \<and>
   Paste \<in> set (fired (main_loop_frame (frame_at (Some (open_hand 0.5 0.5)) 101.6)
      (init_state\<lparr>open_start := Some 101, copy_confirmed := True\<rparr>))) \<and>
   copy_confirmed (init_state\<lparr>open_start := Some 101, copy_confirmed := True\<rparr>) \<and>
   \<not> copy_confirmed (state_of (main_loop_frame (frame_at (Some (open_hand 0.5 0.5)) 101.6)
      (init_state\<lparr>open_start := Some 101, copy_confirmed := True\<rparr>))) \<and>
   Paste \<in> set (fired (main_frame (frame_at (Some (open_hand 0.5 0.5)) 101.6)
      (init_state_s\<lparr>open_start_time := Some 101, copy_done := True\<rparr>))) \<and>
   copy_done (init_state_s\<lparr>open_start_time := Some 101, copy_done := True\<rparr>) \<and>
   \<not> copy_done (state_of (main_frame (frame_at (Some (open_hand 0.5 0.5)) 101.6)
      (init_state_s\<lparr>open_start_time := Some 101, copy_done := True\<rparr>)))"
proof -
  have c: "Copy \<in> set (fired (main_loop_frame (frame_at (Some (still_hand 0.5 0.9)) 100.6)
      (init_state\<lparr>fist_start := Some 100\<rparr>)))"
    "Copy \<in> set (fired (main_frame (frame_at (Some (still_hand 0.5 0.9)) 100.6)
      (init_state_s\<lparr>fist_start_time := Some 100\<rparr>)))"
    by (simp_all only: held_fist_copies list.set insertI1)
  have p: "Paste \<in> set (fired (main_loop_frame (frame_at (Some (open_hand 0.5 0.5)) 101.6)
      (init_state\<lparr>open_start := Some 101, copy_confirmed := True\<rparr>)))"
    "Paste \<in> set (fired (main_frame (frame_at (Some (open_hand 0.5 0.5)) 101.6)
      (init_state_s\<lparr>open_start_time := Some 101, copy_done := True\<rparr>)))"
    by (simp_all only: held_palm_pastes list.set insertI1)
  have f: "\<forall>f \<in> set [frame_at (Some (still_hand 0.5 0.9)) 100.6]. shows_fist f"
    by (simp add: still_hand_shows_fist)
  note copy_case = C2_copy_paste_handoff
    [of "init_state\<lparr>fist_start := Some 100\<rparr>"
        "[frame_at (Some (still_hand 0.5 0.9)) 100.6]"
        "init_state_s\<lparr>fist_start_time := Some 100\<rparr>"
        "frame_at (Some (still_hand 0.5 0.9)) 100.6"]
  note paste_case = C2_copy_paste_handoff
    [of "init_state\<lparr>open_start := Some 101, copy_confirmed := True\<rparr>" "[]"
        "init_state_s\<lparr>open_start_time := Some 101, copy_done := True\<rparr>"
        "frame_at (Some (open_hand 0.5 0.5)) 101.6"]
  show ?thesis
    using copy_case paste_case c p f still_hand_shows_fist [of "0.5" "0.9" "100.6"] by blast
qed


subsection \<open>Proofs: the motion cooldown\<close>

lemma checks_not_motion:
  "g \<in> set (snd (hold_and_pinch_checks f lm th idx s)) \<Longrightarrow> \<not> is_motion g"
  using checks_cases [of f lm th idx s] by (auto simp: is_motion_def)

lemma checks_s_not_motion:
  "g \<in> set (snd (hold_and_pinch_checks_s f lm th idx s)) \<Longrightarrow> \<not> is_motion g"
  using checks_s_cases [of f lm th idx s] by (auto simp: is_motion_def)

lemma motion_fired_clock:
  "g \<in> set (fired (update_motion_and_detect f dx dy s)) \<Longrightarrow>
   last_action_time (state_of (update_motion_and_detect f dx dy s)) = t_detect f"
  using motion_cases [of f dx dy s] by auto

lemma detect_fired_clock:
  "g \<in> set (fired (detect_motion_gesture f x y s)) \<Longrightarrow>
   last_action_time_s (state_of (detect_motion_gesture f x y s)) = t_detect f"
  using detect_cases [of f x y s] by auto

lemma frame_clock_closed:
  assumes "t_detect f - last_action_time s < COOLDOWN"
  shows "(\<forall>g \<in> set (fired (main_loop_frame f s)). \<not> is_motion g) \<and>
         last_action_time (state_of (main_loop_frame f s)) = last_action_time s"
proof (cases rule: main_loop_frame_cases [of f s])
  case no_hand
  then show ?thesis by (simp add: nothing_def)
next
  case (short_hand lm)
  then show ?thesis by (simp add: raise_def)
next
  case (motion_raised lm m e)
  have "fired m = [] \<and> raised m = None"
    unfolding motion_raised(2) using assms by (intro motion_closed [THEN conjunct1] conjI
        motion_closed [THEN conjunct2, THEN conjunct1]) simp_all
  with motion_raised(3) show ?thesis by simp
next
  case (full lm m r)
  have "fired m = [] \<and> last_action_time (state_of m) = last_action_time s"
    unfolding full(3) using assms motion_closed [of f "s\<lparr>pos_history := _\<rparr>"] by simp
  then show ?thesis
    unfolding full(6) full(5) using checks_not_motion by (auto simp: checks_keep_clock)
qed

lemma frame_clock_reset:
  assumes "\<exists>g \<in> set (fired (main_loop_frame f s)). is_motion g"
  shows "last_action_time (state_of (main_loop_frame f s)) = t_detect f"
proof (cases rule: main_loop_frame_cases [of f s])
  case no_hand
  with assms show ?thesis by (simp add: nothing_def)
next
  case (short_hand lm)
  with assms show ?thesis by (simp add: raise_def)
next
  case (motion_raised lm m e)
  then have "fired (main_loop_frame f s) = []"
    using motion_raised_silent by metis
  with assms show ?thesis by simp
next
  case (full lm m r)
  from assms obtain g where g: "g \<in> set (fired m)" "is_motion g"
    unfolding full(6) full(5) using checks_not_motion by auto
  from g(1) have "last_action_time (state_of m) = t_detect f"
    unfolding full(3) by (rule motion_fired_clock)
  then show ?thesis
    unfolding full(6) full(5) by (simp add: checks_keep_clock)
qed

lemma run_clock_closed:
  "\<forall>f \<in> set fs. t_detect f - last_action_time s < COOLDOWN \<Longrightarrow>
   \<forall>evs \<in> set (fst (snd (run_main_loop s fs))). \<forall>g \<in> set evs. \<not> is_motion g"
proof (induction fs arbitrary: s)
  case Nil
  show ?case by simp
next
  case (Cons f fs)
  then have c: "(\<forall>g \<in> set (fired (main_loop_frame f s)). \<not> is_motion g) \<and>
         last_action_time (state_of (main_loop_frame f s)) = last_action_time s"
    using frame_clock_closed [of f s] by simp
  show ?case
  proof (cases "raised (main_loop_frame f s)")
    case None
    have "\<forall>evs \<in> set (fst (snd (run_main_loop (state_of (main_loop_frame f s)) fs))).
            \<forall>g \<in> set evs. \<not> is_motion g"
      using Cons.prems c by (intro Cons.IH) simp
    with None c show ?thesis by (simp add: Let_def)
  next
    case (Some e)
    with c show ?thesis by (simp add: Let_def)
  qed
qed

lemma frame_clock_closed_s:
  assumes "t_detect f - last_action_time_s s \<le> COOLDOWN_s"
  shows "(\<forall>g \<in> set (fired (main_frame f s)). \<not> is_motion g) \<and>
         last_action_time_s (state_of (main_frame f s)) = last_action_time_s s"
proof (cases rule: main_frame_cases [of f s])
  case no_hand
  then show ?thesis by (simp add: nothing_def)
next
  case (short_hand lm)
  then show ?thesis by (simp add: raise_def)
next
  case (full lm r m)
  have "fired m = [] \<and> last_action_time_s (state_of m) = last_action_time_s s"
    unfolding full(4) full(3) using assms
      detect_closed [of f "fst (hold_and_pinch_checks_s f lm (lm ! 4) (lm ! 8) s)"]
    by (simp add: checks_s_keep_clock)
  then show ?thesis
    unfolding full(5) full(3) using checks_s_not_motion by auto
qed

lemma frame_clock_reset_s:
  assumes "\<exists>g \<in> set (fired (main_frame f s)). is_motion g"
  shows "last_action_time_s (state_of (main_frame f s)) = t_detect f"
proof (cases rule: main_frame_cases [of f s])
  case no_hand
  with assms show ?thesis by (simp add: nothing_def)
next
  case (short_hand lm)
  with assms show ?thesis by (simp add: raise_def)
next
  case (full lm r m)
  from assms obtain g where g: "g \<in> set (fired m)" "is_motion g"
    unfolding full(5) full(3) using checks_s_not_motion by auto
  from g(1) have "last_action_time_s (state_of m) = t_detect f"
    unfolding full(4) by (rule detect_fired_clock)
  then show ?thesis
    unfolding full(5) by simp
qed

lemma run_clock_closed_s:
  "\<forall>f \<in> set fs. t_detect f - last_action_time_s s \<le> COOLDOWN_s \<Longrightarrow>
   \<forall>evs \<in> set (fst (snd (run_main s fs))). \<forall>g \<in> set evs. \<not> is_motion g"
proof (induction fs arbitrary: s)
  case Nil
  show ?case by simp
next
  case (Cons f fs)
  then have c: "(\<forall>g \<in> set (fired (main_frame f s)). \<not> is_motion g) \<and>
         last_action_time_s (state_of (main_frame f s)) = last_action_time_s s"
    using frame_clock_closed_s [of f s] by simp
  show ?case
  proof (cases "raised (main_frame f s)")
    case None
    have "\<forall>evs \<in> set (fst (snd (run_main (state_of (main_frame f s)) fs))).
            \<forall>g \<in> set evs. \<not> is_motion g"
      using Cons.prems c by (intro Cons.IH) simp
    with None c show ?thesis by (simp add: Let_def)
  next
    case (Some e)
    with c show ?thesis by (simp add: Let_def)
  qed
qed

text \<open>
  C5. When an iteration fires a motion gesture, it leaves the cooldown clock at the
  time the motion detector read; and in any following frames whose clock reading is
  less than COOLDOWN after that time, whatever the hand does and whatever the hold
  timers are, no motion gesture fires. (In \<^verbatim>\<open>gesture_file_server.py\<close> the comparison
  is strict the other way, so this holds up to and including an age of COOLDOWN.)
\<close>

theorem C5_motion_cooldown:
  "((\<exists>g \<in> set (fired (main_loop_frame f0 s)). is_motion g) \<longrightarrow>
      last_action_time (state_of (main_loop_frame f0 s)) = t_detect f0 \<and>
      ((\<forall>f \<in> set fs. t_detect f - t_detect f0 < COOLDOWN) \<longrightarrow>
         (\<forall>evs \<in> set (fst (snd (run_main_loop (state_of (main_loop_frame f0 s)) fs))).
            \<forall>g \<in> set evs. \<not> is_motion g))) \<and>
   ((\<exists>g \<in> set (fired (main_frame f0 s')). is_motion g) \<longrightarrow>
      last_action_time_s (state_of (main_frame f0 s')) = t_detect f0 \<and>
      ((\<forall>f \<in> set fs. t_detect f - t_detect f0 \<le> COOLDOWN_s) \<longrightarrow>
         (\<forall>evs \<in> set (fst (snd (run_main (state_of (main_frame f0 s')) fs))).
            \<forall>g \<in> set evs. \<not> is_motion g)))"
proof (intro conjI impI)
  assume a: "\<exists>g \<in> set (fired (main_loop_frame f0 s)). is_motion g"
  then show t: "last_action_time (state_of (main_loop_frame f0 s)) = t_detect f0"
    by (rule frame_clock_reset)
  assume "\<forall>f \<in> set fs. t_detect f - t_detect f0 < COOLDOWN"
  then show "\<forall>evs \<in> set (fst (snd (run_main_loop (state_of (main_loop_frame f0 s)) fs))).
            \<forall>g \<in> set evs. \<not> is_motion g"
    by (intro run_clock_closed) (simp add: t)
next
  assume a: "\<exists>g \<in> set (fired (main_frame f0 s')). is_motion g"
  then show t: "last_action_time_s (state_of (main_frame f0 s')) = t_detect f0"
    by (rule frame_clock_reset_s)
  assume "\<forall>f \<in> set fs. t_detect f - t_detect f0 \<le> COOLDOWN_s"
  then show "\<forall>evs \<in> set (fst (snd (run_main (state_of (main_frame f0 s')) fs))).
            \<forall>g \<in> set evs. \<not> is_motion g"
    by (intro run_clock_closed_s) (simp add: t)
qed

theorem C5_motion_cooldown_witness:
  "ScrollUp \<in> set (fired (main_loop_frame (frame_at (Some (still_hand 0.5 0.4)) 100.5)
      (init_state\<lparr>pos_history := [(0.5, 0.9)], fist_start := Some 100\<rparr>))) \<and>
   is_motion ScrollUp \<and>
   t_detect (frame_at (Some (still_hand 0.5 0.1)) 101)
     - t_detect (frame_at (Some (still_hand 0.5 0.4)) 100.5) < COOLDOWN \<and>
   last_action_time (state_of (main_loop_frame (frame_at (Some (still_hand 0.5 0.4)) 100.5)
      (init_state\<lparr>pos_history := [(0.5, 0.9)], fist_start := Some 100\<rparr>))) = 100.5 \<and>
   \<not> (\<exists>evs \<in> set (fst (snd (run_main_loop
          (state_of (main_loop_frame (frame_at (Some (still_hand 0.5 0.4)) 100.5)
             (init_state\<lparr>pos_history := [(0.5, 0.9)], fist_start := Some 100\<rparr>)))
          [frame_at (Some (still_hand 0.5 0.1)) 101]))).
        \<exists>g \<in> set evs. is_motion g) \<and>
   ScrollUp \<in> set (fired (main_frame (frame_at (Some (still_hand 0.5 0.4)) 100.6)
      (init_state_s\<lparr>x_history := [0.5], y_history := [0.9],
         fist_start_time := Some 100\<rparr>))) \<and>
   t_detect (frame_at (Some (still_hand 0.5 0.1)) 101)
     - t_detect (frame_at (Some (still_hand 0.5 0.4)) 100.6) \<le> COOLDOWN_s \<and>
   last_action_time_s (state_of (main_frame (frame_at (Some (still_hand 0.5 0.4)) 100.6)
      (init_state_s\<lparr>x_history := [0.5], y_history := [0.9],
         fist_start_time := Some 100\<rparr>))) = 100.6 \<and>
   \<not> (\<exists>evs \<in> set (fst (snd (run_main
          (state_of (main_frame (frame_at (Some (still_hand 0.5 0.4)) 100.6)
             (init_state_s\<lparr>x_history := [0.5], y_history := [0.9],
                fist_start_time := Some 100\<rparr>)))
          [frame_at (Some (still_hand 0.5 0.1)) 101]))).
        \<exists>g \<in> set evs. is_motion g)"
proof -
  let ?s = "init_state\<lparr>pos_history := [(0.5, 0.9)], fist_start := Some 100\<rparr>"
  let ?s' = "init_state_s\<lparr>x_history := [0.5], y_history := [0.9],
         fist_start_time := Some 100\<rparr>"
  let ?f = "frame_at (Some (still_hand 0.5 0.4)) 100.5"
  let ?f' = "frame_at (Some (still_hand 0.5 0.4)) 100.6"
  let ?fs = "[frame_at (Some (still_hand 0.5 0.1)) 101]"
  have up: "ScrollUp \<in> set (fired (main_loop_frame ?f ?s))"
    "ScrollUp \<in> set (fired (main_frame ?f' ?s'))"
    by (simp_all only: fist_then_lift fist_then_lift_s list.set insertI1 insertI2)
  have m: "is_motion ScrollUp" by (simp add: is_motion_def)
  have t: "\<forall>f \<in> set ?fs. t_detect f - t_detect ?f < COOLDOWN"
    "\<forall>f \<in> set ?fs. t_detect f - t_detect ?f' \<le> COOLDOWN_s"
    by (simp_all add: frame_at_def COOLDOWN_def COOLDOWN_s_def)
  have t': "t_detect (frame_at (Some (still_hand 0.5 0.1)) 101) - t_detect ?f < COOLDOWN"
    "t_detect (frame_at (Some (still_hand 0.5 0.1)) 101) - t_detect ?f' \<le> COOLDOWN_s"
    "t_detect ?f = 100.5" "t_detect ?f' = 100.6"
    by (simp_all add: frame_at_def COOLDOWN_def COOLDOWN_s_def)
  note a = C5_motion_cooldown [of ?f ?s ?fs, THEN conjunct1]
  note b = C5_motion_cooldown [of ?f' _ ?fs ?s', THEN conjunct2]
  show ?thesis
    using a b up m t t' by (metis (no_types, lifting))
qed


subsection \<open>Proofs: motion classification\<close>

lemma motion_classifies:
  assumes "\<not> t_detect f - last_action_time s < COOLDOWN" "\<not> scroll_raises f"
    "\<not> tab_hotkey_raises f"
  shows "fired (update_motion_and_detect f dx dy s) =
     axis_dominance SCROLL_THRESHOLD TAB_THRESHOLD
       (ema_dx (state_of (update_motion_and_detect f dx dy s)))
       (ema_dy (state_of (update_motion_and_detect f dx dy s)))"
proof -
  define ex where "ex = EMA_ALPHA * dx + (1 - EMA_ALPHA) * ema_dx s"
  define ey where "ey = EMA_ALPHA * dy + (1 - EMA_ALPHA) * ema_dy s"
  define s1 where "s1 = s\<lparr>ema_dx := ex, ema_dy := ey\<rparr>"
  define vertical where "vertical = (\<bar>ey\<bar> > SCROLL_THRESHOLD \<and> \<bar>ey\<bar> > \<bar>ex\<bar>)"
  define horizontal where "horizontal = (\<bar>ex\<bar> > TAB_THRESHOLD \<and> \<bar>ex\<bar> > \<bar>ey\<bar>)"
  have u: "update_motion_and_detect f dx dy s =
      (if vertical then fire_motion (if ey < 0 then ScrollUp else ScrollDown) (t_detect f) s1
       else if horizontal then fire_motion (if ex > 0 then NextTab else PrevTab) (t_detect f) s1
       else nothing s1)"
  proof -
    have r: "ema_dx (s\<lparr>ema_dx := ex, ema_dy := ey\<rparr>) = ex"
      "ema_dy (s\<lparr>ema_dx := ex, ema_dy := ey\<rparr>) = ey"
      "(t_detect f - last_action_time (s\<lparr>ema_dx := ex, ema_dy := ey\<rparr>) < COOLDOWN) = False"
      using assms(1) by simp_all
    show ?thesis
      unfolding update_motion_and_detect_def Let_def
      unfolding ex_def [symmetric] ey_def [symmetric]
      unfolding r
      unfolding s1_def [symmetric] vertical_def [symmetric] horizontal_def [symmetric]
      using assms(2,3) by simp
  qed
  have e: "ema_dx (state_of (update_motion_and_detect f dx dy s)) = ex"
    "ema_dy (state_of (update_motion_and_detect f dx dy s)) = ey"
    unfolding u by (simp_all add: fire_motion_def nothing_def s1_def)
  have a: "axis_dominance SCROLL_THRESHOLD TAB_THRESHOLD ex ey =
      (if vertical then [if ey < 0 then ScrollUp else ScrollDown]
       else if horizontal then [if ex > 0 then NextTab else PrevTab] else [])"
    unfolding axis_dominance_def vertical_def horizontal_def by (rule refl)
  show ?thesis
    unfolding e a unfolding u by (simp add: fire_motion_def nothing_def)
qed

lemma detect_classifies:
  assumes "t_detect f - last_action_time_s s > COOLDOWN_s" "\<not> scroll_raises f"
    "\<not> tab_hotkey_raises f" "length (y_history s) = length (x_history s)"
  shows "fired (detect_motion_gesture f x y s) =
     axis_dominance SCROLL_THRESHOLD_s TAB_THRESHOLD_s
       (last (x_history (state_of (detect_motion_gesture f x y s)))
          - hd (x_history (state_of (detect_motion_gesture f x y s))))
       (last (y_history (state_of (detect_motion_gesture f x y s)))
          - hd (y_history (state_of (detect_motion_gesture f x y s))))"
proof -
  define xh where "xh = (if length (x_history s @ [x]) > SMOOTHING_WINDOW_s
                         then tl (x_history s @ [x]) else x_history s @ [x])"
  define yh where "yh = (if length (x_history s @ [x]) > SMOOTHING_WINDOW_s
                         then tl (y_history s @ [y]) else y_history s @ [y])"
  define ex where "ex = last xh - hd xh"
  define ey where "ey = last yh - hd yh"
  define s1 where "s1 = s\<lparr>x_history := xh, y_history := yh\<rparr>"
  define vertical where "vertical = (\<bar>ey\<bar> > SCROLL_THRESHOLD_s \<and> \<bar>ey\<bar> > \<bar>ex\<bar>)"
  define horizontal where "horizontal = (\<bar>ex\<bar> > TAB_THRESHOLD_s \<and> \<bar>ex\<bar> > \<bar>ey\<bar>)"
  have ne: "\<not> (xh = [] \<or> yh = [])"
    using assms(4) unfolding xh_def yh_def
    by (cases "x_history s"; cases "y_history s"; simp add: SMOOTHING_WINDOW_s_def)
  have u: "detect_motion_gesture f x y s =
      (if vertical then fire_motion_s (if ey < 0 then ScrollUp else ScrollDown) (t_detect f) s1
       else if horizontal then fire_motion_s (if ex > 0 then NextTab else PrevTab) (t_detect f) s1
       else nothing s1)"
  proof -
    have r: "(COOLDOWN_s < t_detect f - last_action_time_s (s\<lparr>x_history := xh, y_history := yh\<rparr>))
        = True"
      "(xh = [] \<or> yh = []) = False"
      using assms(1) ne by simp_all
    show ?thesis
      unfolding detect_motion_gesture_def Let_def
      unfolding xh_def [symmetric] yh_def [symmetric]
      unfolding ex_def [symmetric] ey_def [symmetric]
      unfolding r
      unfolding s1_def [symmetric] vertical_def [symmetric] horizontal_def [symmetric]
      using assms(2,3) by simp
  qed
  have e: "x_history (state_of (detect_motion_gesture f x y s)) = xh"
    "y_history (state_of (detect_motion_gesture f x y s)) = yh"
    unfolding u by (simp_all add: fire_motion_s_def nothing_def s1_def)
  have a: "axis_dominance SCROLL_THRESHOLD_s TAB_THRESHOLD_s ex ey =
      (if vertical then [if ey < 0 then ScrollUp else ScrollDown]
       else if horizontal then [if ex > 0 then NextTab else PrevTab] else [])"
    unfolding axis_dominance_def vertical_def horizontal_def by (rule refl)
  show ?thesis
    unfolding e ex_def [symmetric] ey_def [symmetric] a unfolding u
    by (simp add: fire_motion_s_def nothing_def)
qed

lemma checks_s_keep_histories:
  "x_history (fst (hold_and_pinch_checks_s f lm th idx s)) = x_history s \<and>
   y_history (fst (hold_and_pinch_checks_s f lm th idx s)) = y_history s"
proof -
  have b: "x_history (fst (copy_block_s f n now s)) = x_history s"
    "y_history (fst (copy_block_s f n now s)) = y_history s"
    "x_history (fst (paste_block_s f n now s)) = x_history s"
    "y_history (fst (paste_block_s f n now s)) = y_history s"
    "x_history (fst (screenshot_block_s f fs th idx now s)) = x_history s"
    "y_history (fst (screenshot_block_s f fs th idx now s)) = y_history s"
    for n now s fs
    by (simp_all add: copy_block_s_def copy_action_s_def paste_block_s_def paste_action_s_def
        screenshot_block_s_def Let_def say_s_def split: option.split)
  show ?thesis by (simp add: hold_and_pinch_checks_s_def Let_def b)
qed

lemma detect_keeps_lengths:
  "length (y_history s) = length (x_history s) \<Longrightarrow>
   length (y_history (state_of (detect_motion_gesture f x y s))) =
   length (x_history (state_of (detect_motion_gesture f x y s)))"
proof -
  define xh where "xh = (if length (x_history s @ [x]) > SMOOTHING_WINDOW_s
                         then tl (x_history s @ [x]) else x_history s @ [x])"
  define yh where "yh = (if length (x_history s @ [x]) > SMOOTHING_WINDOW_s
                         then tl (y_history s @ [y]) else y_history s @ [y])"
  assume "length (y_history s) = length (x_history s)"
  then have l: "length yh = length xh"
    by (simp add: xh_def yh_def)
  have "x_history (state_of (detect_motion_gesture f x y s)) = xh \<and>
        y_history (state_of (detect_motion_gesture f x y s)) = yh"
    unfolding detect_motion_gesture_def Let_def
    unfolding xh_def [symmetric] yh_def [symmetric]
    by (simp add: nothing_def raise_def fire_motion_s_def)
  with l show ?thesis by simp
qed

text \<open>
  The two histories of \<^verbatim>\<open>gesture_file_server.py\<close> have equal length in the initial
  state, and every iteration keeps them so.
\<close>

lemma main_frame_keeps_lengths:
  assumes "length (y_history s) = length (x_history s)"
  shows "length (y_history (state_of (main_frame f s))) =
         length (x_history (state_of (main_frame f s)))"
proof (cases rule: main_frame_cases [of f s])
  case no_hand
  with assms show ?thesis by (simp add: nothing_def)
next
  case (short_hand lm)
  with assms show ?thesis by (simp add: raise_def)
next
  case (full lm r m)
  have "length (y_history (fst r)) = length (x_history (fst r))"
    unfolding full(3) using assms by (simp add: checks_s_keep_histories)
  then show ?thesis
    unfolding full(5) full(4) by (simp add: detect_keeps_lengths)
qed

text \<open>
  C7. With the cooldown elapsed (and the scroll and hotkey calls not raising; in
  \<^verbatim>\<open>gesture_file_server.py\<close> the two histories of equal length, as they always are), the
  motion check fires exactly what strict axis dominance says of the pair it compares:
  the freshly updated EMA pair in \<^verbatim>\<open>gesture_drop.py\<close>, the displacement across the
  window in \<^verbatim>\<open>gesture_file_server.py\<close>. A vertical magnitude over its threshold and
  larger than the horizontal one gives ScrollUp for a negative value and ScrollDown
  otherwise; else a horizontal magnitude over its threshold and larger than the
  vertical one gives NextTab for a positive value and PrevTab otherwise; so with both
  over threshold the larger magnitude decides, and equal magnitudes fire nothing.
\<close>

theorem C7_axis_dominance:
  "(\<not> t_detect f - last_action_time s < COOLDOWN \<and> \<not> scroll_raises f
      \<and> \<not> tab_hotkey_raises f \<longrightarrow>
      fired (update_motion_and_detect f dx dy s) =
        axis_dominance SCROLL_THRESHOLD TAB_THRESHOLD
          (ema_dx (state_of (update_motion_and_detect f dx dy s)))
          (ema_dy (state_of (update_motion_and_detect f dx dy s)))) \<and>
   (t_detect f - last_action_time_s s' > COOLDOWN_s \<and> \<not> scroll_raises f
      \<and> \<not> tab_hotkey_raises f \<and> length (y_history s') = length (x_history s') \<longrightarrow>
      fired (detect_motion_gesture f x y s') =
        axis_dominance SCROLL_THRESHOLD_s TAB_THRESHOLD_s
          (last (x_history (state_of (detect_motion_gesture f x y s')))
             - hd (x_history (state_of (detect_motion_gesture f x y s'))))
          (last (y_history (state_of (detect_motion_gesture f x y s')))
             - hd (y_history (state_of (detect_motion_gesture f x y s'))))) \<and>
   (\<bar>ey\<bar> > v \<and> \<bar>ey\<bar> > \<bar>ex\<bar> \<longrightarrow>
      axis_dominance v h ex ey = [if ey < 0 then ScrollUp else ScrollDown]) \<and>
   (\<bar>ex\<bar> > h \<and> \<bar>ex\<bar> > \<bar>ey\<bar> \<longrightarrow>
      axis_dominance v h ex ey = [if ex > 0 then NextTab else PrevTab]) \<and>
   (\<bar>ex\<bar> = \<bar>ey\<bar> \<longrightarrow> axis_dominance v h ex ey = [])"
proof (intro conjI impI)
  show "axis_dominance v h ex ey = [if ey < 0 then ScrollUp else ScrollDown]"
    if "\<bar>ey\<bar> > v \<and> \<bar>ey\<bar> > \<bar>ex\<bar>"
    using that by (simp add: axis_dominance_def)
  show "axis_dominance v h ex ey = [if ex > 0 then NextTab else PrevTab]"
    if "\<bar>ex\<bar> > h \<and> \<bar>ex\<bar> > \<bar>ey\<bar>"
    using that by (simp add: axis_dominance_def)
  show "axis_dominance v h ex ey = []" if "\<bar>ex\<bar> = \<bar>ey\<bar>"
    using that by (simp add: axis_dominance_def)
qed (simp_all add: motion_classifies detect_classifies)

theorem C7_axis_dominance_witness:
  "fired (update_motion_and_detect (frame_at None 100) 0 (- 0.5) init_state) = [ScrollUp] \<and>
   fired (update_motion_and_detect (frame_at None 100) 0.5 0.1 init_state) = [NextTab] \<and>
   fired (update_motion_and_detect (frame_at None 100) 0.5 (- 0.5) init_state) = [] \<and>
   fired (detect_motion_gesture (frame_at None 100) 0.5 0.4
      (init_state_s\<lparr>x_history := [0.5], y_history := [0.9]\<rparr>)) = [ScrollUp]"
proof -
  let ?f = "frame_at None 100"
  let ?s' = "init_state_s\<lparr>x_history := [0.5], y_history := [0.9]\<rparr>"
  have pre: "\<not> t_detect ?f - last_action_time init_state < COOLDOWN \<and> \<not> scroll_raises ?f
      \<and> \<not> tab_hotkey_raises ?f"
    "t_detect ?f - last_action_time_s ?s' > COOLDOWN_s \<and> \<not> scroll_raises ?f
      \<and> \<not> tab_hotkey_raises ?f \<and> length (y_history ?s') = length (x_history ?s')"
    by (simp_all add: frame_at_def init_state_def init_state_s_def COOLDOWN_def COOLDOWN_s_def)
  have ema: "ema_dx (state_of (update_motion_and_detect ?f dx dy init_state)) = 0.25 * dx"
    "ema_dy (state_of (update_motion_and_detect ?f dx dy init_state)) = 0.25 * dy" for dx dy
    by (simp_all add: update_motion_and_detect_def Let_def nothing_def raise_def
        fire_motion_def init_state_def EMA_ALPHA_def)
  have win: "x_history (state_of (detect_motion_gesture ?f 0.5 0.4 ?s')) = [0.5, 0.5]"
    "y_history (state_of (detect_motion_gesture ?f 0.5 0.4 ?s')) = [0.9, 0.4]"
    by (simp_all add: detect_motion_gesture_def Let_def nothing_def raise_def
        fire_motion_s_def init_state_s_def SMOOTHING_WINDOW_s_def)
  note c = C7_axis_dominance [of ?f init_state _ _ ?s' "0.5" "0.4", THEN conjunct1, rule_format, OF pre(1)]
  note d = C7_axis_dominance [of ?f init_state 0 0 ?s' "0.5" "0.4", THEN conjunct2, THEN conjunct1,
      rule_format, OF pre(2)]
  show ?thesis
    unfolding c d ema win
    by (simp add: axis_dominance_def SCROLL_THRESHOLD_def TAB_THRESHOLD_def
        SCROLL_THRESHOLD_s_def TAB_THRESHOLD_s_def)
qed


subsection \<open>Proofs: frames without a hand\<close>

lemma no_hand_main_loop:
  "main_loop_frame (f\<lparr>hand_lm := None\<rparr>) s =
     nothing (s\<lparr>pos_history := [], fist_start := None, open_start := None\<rparr>)"
  by (simp add: main_loop_frame_def)

lemma no_hand_main: "main_frame (f\<lparr>hand_lm := None\<rparr>) s = nothing s"
  by (simp add: main_frame_def)

lemma frame_at_None: "(frame_at h t)\<lparr>hand_lm := None\<rparr> = frame_at None t"
  by (simp add: frame_at_def)

lemma lost_fist:
  "main_loop_frame (frame_at None 100.1)
     (init_state\<lparr>pos_history := [(0.5, 0.9)], fist_start := Some 100\<rparr>) =
     \<lparr> state_of = init_state, fired = [], raised = None \<rparr>"
  "main_loop_frame (frame_at (Some (still_hand 0.5 0.9)) 110) init_state =
     \<lparr> state_of = init_state\<lparr>pos_history := [(0.5, 0.9)], fist_start := Some 110\<rparr>,
       fired = [], raised = None \<rparr>"
  by (simp_all add: frame_defs outcome_defs cfg hands frame_at_def init_state_def Let_def
      split del: if_split cong: if_weak_cong)

lemma lost_fist_s:
  "main_frame (frame_at None 100.1)
     (init_state_s\<lparr>x_history := [0.5], y_history := [0.9], fist_start_time := Some 100\<rparr>) =
     \<lparr> state_of = init_state_s\<lparr>x_history := [0.5], y_history := [0.9],
          fist_start_time := Some 100\<rparr>,
       fired = [], raised = None \<rparr>"
  "fired (main_frame (frame_at (Some (still_hand 0.5 0.9)) 110)
     (init_state_s\<lparr>x_history := [0.5], y_history := [0.9], fist_start_time := Some 100\<rparr>))
     = [Copy]"
  "raised (main_frame (frame_at (Some (still_hand 0.5 0.9)) 110)
     (init_state_s\<lparr>x_history := [0.5], y_history := [0.9], fist_start_time := Some 100\<rparr>))
     = None"
  by (simp_all add: frame_defs_s outcome_defs cfg_s hands frame_at_def init_state_s_def
      Let_def split del: if_split cong: if_weak_cong)

text \<open>
  C6. In \<^verbatim>\<open>gesture_drop.py\<close> an iteration without a hand empties the position
  history, sets both hold timers to None and changes nothing else, so the confirmation
  flag survives. In \<^verbatim>\<open>gesture_file_server.py\<close> such an iteration changes nothing at
  all: the histories and both hold timers keep their values. There a fist seen in one
  frame at time 100, lost, and seen again at time 110 fires Copy in that very frame,
  where \<^verbatim>\<open>gesture_drop.py\<close> on the same frames starts a new hold and fires nothing.
\<close>

theorem C6_no_hand_frame:
  "main_loop_frame (f\<lparr>hand_lm := None\<rparr>) s =
     \<lparr> state_of = s\<lparr>pos_history := [], fist_start := None, open_start := None\<rparr>,
       fired = [], raised = None \<rparr> \<and>
   copy_confirmed (state_of (main_loop_frame (f\<lparr>hand_lm := None\<rparr>) s)) = copy_confirmed s \<and>
   main_frame (f\<lparr>hand_lm := None\<rparr>) s' = \<lparr> state_of = s', fired = [], raised = None \<rparr> \<and>
   fst (snd (run_main init_state_s
      [frame_at (Some (still_hand 0.5 0.9)) 100, frame_at None 100.1,
       frame_at (Some (still_hand 0.5 0.9)) 110])) = [[], [], [Copy]] \<and>
   fst (snd (run_main_loop init_state
      [frame_at (Some (still_hand 0.5 0.9)) 100, frame_at None 100.1,
       frame_at (Some (still_hand 0.5 0.9)) 110])) = [[], [], []]"
proof -
  have a: "fst (snd (run_main init_state_s
      [frame_at (Some (still_hand 0.5 0.9)) 100, frame_at None 100.1,
       frame_at (Some (still_hand 0.5 0.9)) 110])) = [[], [], [Copy]]"
    by (simp only: run_main.simps fist_then_lift_s lost_fist_s Let_def
        outcome.simps option.case fst_conv snd_conv)
  have b: "fst (snd (run_main_loop init_state
      [frame_at (Some (still_hand 0.5 0.9)) 100, frame_at None 100.1,
       frame_at (Some (still_hand 0.5 0.9)) 110])) = [[], [], []]"
    by (simp only: run_main_loop.simps fist_then_lift lost_fist Let_def
        outcome.simps option.case fst_conv snd_conv)
  show ?thesis
    unfolding no_hand_main_loop no_hand_main using a b by (simp add: nothing_def)
qed


subsection \<open>Proofs: the EMA across hand loss\<close>

lemma blocks_keep_ema:
  "ema_dx (fst (copy_block f n now s)) = ema_dx s"
  "ema_dy (fst (copy_block f n now s)) = ema_dy s"
  "ema_dx (fst (paste_block f n now s)) = ema_dx s"
  "ema_dy (fst (paste_block f n now s)) = ema_dy s"
  "ema_dx (fst (screenshot_block f fs th idx now s)) = ema_dx s"
  "ema_dy (fst (screenshot_block f fs th idx now s)) = ema_dy s"
  by (simp_all add: copy_block_def copy_action_def paste_block_def paste_action_def
      screenshot_block_def safe_set_local_clipboard_def Let_def say_def split: option.split)

lemma checks_keep_ema:
  "ema_dx (fst (hold_and_pinch_checks f lm th idx s)) = ema_dx s \<and>
   ema_dy (fst (hold_and_pinch_checks f lm th idx s)) = ema_dy s"
  by (simp add: hold_and_pinch_checks_def Let_def blocks_keep_ema)

lemma stale_scroll:
  "main_loop_frame (frame_at (Some (still_hand 0.5 0.4)) 100.1)
     (init_state\<lparr>pos_history := [(0.5, 0.9)], fist_start := Some 100\<rparr>) =
     \<lparr> state_of = init_state\<lparr>last_action_time := 100.1,
          pos_history := [(0.5, 0.9), (0.5, 0.4)], ema_dy := - 0.125,
          fist_start := Some 100, gesture_label := ''Scroll Up'', label_set_time := 100.1\<rparr>,
       fired = [ScrollUp], raised = None \<rparr>"
  "main_loop_frame (frame_at None 100.2)
     (init_state\<lparr>last_action_time := 100.1,
          pos_history := [(0.5, 0.9), (0.5, 0.4)], ema_dy := - 0.125,
          fist_start := Some 100, gesture_label := ''Scroll Up'', label_set_time := 100.1\<rparr>) =
     \<lparr> state_of = init_state\<lparr>last_action_time := 100.1, ema_dy := - 0.125,
          gesture_label := ''Scroll Up'', label_set_time := 100.1\<rparr>,
       fired = [], raised = None \<rparr>"
  "main_loop_frame (frame_at (Some (still_hand 0.5 0.5)) 101.2)
     (init_state\<lparr>last_action_time := 100.1, ema_dy := - 0.125,
          gesture_label := ''Scroll Up'', label_set_time := 100.1\<rparr>) =
     \<lparr> state_of = init_state\<lparr>last_action_time := 101.2, pos_history := [(0.5, 0.5)],
          ema_dy := - 0.09375, fist_start := Some 101.2,
          gesture_label := ''Scroll Up'', label_set_time := 101.2\<rparr>,
       fired = [ScrollUp], raised = None \<rparr>"
  by (simp_all add: frame_defs outcome_defs cfg hands frame_at_def init_state_def Let_def
      split del: if_split cong: if_weak_cong)


text \<open>
  C10. In \<^verbatim>\<open>gesture_drop.py\<close> an iteration without a hand leaves both EMA values as
  they are while it empties the position history, and the hold and pinch checks never
  touch them: only the motion detector, which runs on frames with a hand, writes them.
  A stale EMA can therefore fire: from the initial state, a hand lifted by 0.5 fires
  ScrollUp and leaves \<open>ema_dy = -0.125\<close>; the hand disappears; when it reappears 1.1
  seconds after the scroll, the window holds one sample, the displacement is zero,
  the EMA decays to \<open>-0.09375\<close>, still beyond the threshold, and ScrollUp fires again.
\<close>

theorem C10_ema_persists_over_hand_loss:
  "ema_dx (state_of (main_loop_frame (f\<lparr>hand_lm := None\<rparr>) s)) = ema_dx s \<and>
   ema_dy (state_of (main_loop_frame (f\<lparr>hand_lm := None\<rparr>) s)) = ema_dy s \<and>
   pos_history (state_of (main_loop_frame (f\<lparr>hand_lm := None\<rparr>) s)) = [] \<and>
   ema_dx (fst (hold_and_pinch_checks f lm th idx s)) = ema_dx s \<and>
   ema_dy (fst (hold_and_pinch_checks f lm th idx s)) = ema_dy s \<and>
   fst (snd (run_main_loop init_state
      [frame_at (Some (still_hand 0.5 0.9)) 100,
       frame_at (Some (still_hand 0.5 0.4)) 100.1,
       frame_at None 100.2,
       frame_at (Some (still_hand 0.5 0.5)) 101.2])) = [[], [ScrollUp], [], [ScrollUp]] \<and>
   window_delta (pos_history (fst (run_main_loop init_state
      [frame_at (Some (still_hand 0.5 0.9)) 100,
       frame_at (Some (still_hand 0.5 0.4)) 100.1,
       frame_at None 100.2,
       frame_at (Some (still_hand 0.5 0.5)) 101.2]))) = (0, 0)"
proof -
  have r: "run_main_loop init_state
      [frame_at (Some (still_hand 0.5 0.9)) 100,
       frame_at (Some (still_hand 0.5 0.4)) 100.1,
       frame_at None 100.2,
       frame_at (Some (still_hand 0.5 0.5)) 101.2] =
     (init_state\<lparr>last_action_time := 101.2, pos_history := [(0.5, 0.5)],
          ema_dy := - 0.09375, fist_start := Some 101.2,
          gesture_label := ''Scroll Up'', label_set_time := 101.2\<rparr>,
      [[], [ScrollUp], [], [ScrollUp]], None)"
    by (simp only: run_main_loop.simps fist_then_lift stale_scroll Let_def
        outcome.simps option.case fst_conv snd_conv)
  have w: "window_delta [(0.5, 0.5)] = (0, 0)"
    by (simp add: window_delta_def)
  show ?thesis
    unfolding r no_hand_main_loop nothing_def checks_keep_ema [THEN conjunct1]
      checks_keep_ema [THEN conjunct2]
    using w by simp
qed


subsection \<open>Proofs: failing clipboard calls\<close>

lemma copy_read_failure:
  assumes "fist_start s = Some t0" "now - t0 > GESTURE_HOLD_TIME" "\<not> copy_confirmed s"
    "\<not> copy_hotkey_raises f" "clipboard_text f = None"
  shows "snd (copy_block f 0 now s) = [Copy] \<and> copy_confirmed (fst (copy_block f 0 now s)) \<and>
    (WARN, ''pyperclip.paste failed'') \<in> set (printed (fst (copy_block f 0 now s))) \<and>
    shared_clipboard (fst (copy_block f 0 now s)) = shared_clipboard s"
  using assms by (simp add: copy_block_def copy_action_def Let_def say_def)

lemma paste_write_failure:
  assumes "open_start s = Some t0" "now - t0 > GESTURE_HOLD_TIME" "copy_confirmed s"
    "ctype (shared_clipboard s) = ''text''" "cvalue (shared_clipboard s) \<noteq> []"
    "set_clipboard_raises f" "\<not> paste_hotkey_raises f"
  shows "snd (paste_block f 5 now s) = [Paste] \<and>
    \<not> copy_confirmed (fst (paste_block f 5 now s)) \<and>
    (WARN, ''pyperclip.copy failed'') \<in> set (printed (fst (paste_block f 5 now s)))"
  using assms
  by (simp add: paste_block_def paste_action_def safe_set_local_clipboard_def Let_def say_def)

lemma copy_read_failure_s:
  assumes "fist_start_time s = Some t0" "now - t0 > GESTURE_HOLD_TIME_s" "\<not> copy_done s"
    "\<not> copy_hotkey_raises f" "clipboard_text f = None"
  shows "snd (copy_block_s f 0 now s) = [Copy] \<and> copy_done (fst (copy_block_s f 0 now s)) \<and>
    (WARN, ''pyperclip paste failed'') \<in> set (printed_s (fst (copy_block_s f 0 now s))) \<and>
    shared_clipboard_s (fst (copy_block_s f 0 now s)) = shared_clipboard_s s"
  using assms by (simp add: copy_block_s_def copy_action_s_def Let_def say_s_def)

lemma paste_write_failure_s:
  assumes "open_start_time s = Some t0" "now - t0 > GESTURE_HOLD_TIME_s" "copy_done s"
    "ctype (shared_clipboard_s s) = ''text''" "truthy (cvalue (shared_clipboard_s s))"
    "set_clipboard_raises f" "\<not> paste_hotkey_raises f"
  shows "snd (paste_block_s f 5 now s) = [Paste] \<and>
    \<not> copy_done (fst (paste_block_s f 5 now s)) \<and>
    (WARN, ''pyperclip copy failed'') \<in> set (printed_s (fst (paste_block_s f 5 now s)))"
  using assms by (simp add: paste_block_s_def paste_action_s_def Let_def say_s_def)

lemma flag_ignores_clipboard_calls:
  "copy_confirmed (fst (copy_block (f\<lparr>clipboard_text := a\<rparr>) n now s)) =
     copy_confirmed (fst (copy_block (f\<lparr>clipboard_text := b\<rparr>) n now s))"
  "snd (copy_block (f\<lparr>clipboard_text := a\<rparr>) n now s) =
     snd (copy_block (f\<lparr>clipboard_text := b\<rparr>) n now s)"
  "copy_confirmed (fst (paste_block (f\<lparr>set_clipboard_raises := c\<rparr>) n now s)) =
     copy_confirmed (fst (paste_block (f\<lparr>set_clipboard_raises := d\<rparr>) n now s))"
  "snd (paste_block (f\<lparr>set_clipboard_raises := c\<rparr>) n now s) =
     snd (paste_block (f\<lparr>set_clipboard_raises := d\<rparr>) n now s)"
  by (simp_all add: copy_block_def copy_action_def paste_block_def paste_action_def
      safe_set_local_clipboard_def Let_def say_def split: option.split)

lemma flag_ignores_clipboard_calls_s:
  "copy_done (fst (copy_block_s (f\<lparr>clipboard_text := a\<rparr>) n now s)) =
     copy_done (fst (copy_block_s (f\<lparr>clipboard_text := b\<rparr>) n now s))"
  "snd (copy_block_s (f\<lparr>clipboard_text := a\<rparr>) n now s) =
     snd (copy_block_s (f\<lparr>clipboard_text := b\<rparr>) n now s)"
  "copy_done (fst (paste_block_s (f\<lparr>set_clipboard_raises := c\<rparr>) n now s)) =
     copy_done (fst (paste_block_s (f\<lparr>set_clipboard_raises := d\<rparr>) n now s))"
  "snd (paste_block_s (f\<lparr>set_clipboard_raises := c\<rparr>) n now s) =
     snd (paste_block_s (f\<lparr>set_clipboard_raises := d\<rparr>) n now s)"
  by (simp_all add: copy_block_s_def copy_action_s_def paste_block_s_def paste_action_s_def
      Let_def say_s_def split: option.split)

text \<open>
  C8 (as the code has it). A \<^verbatim>\<open>pyperclip.paste()\<close> that raises during Copy, and a
  \<^verbatim>\<open>pyperclip.copy()\<close> that raises during Paste, is printed as a warning and has no
  other effect on the gesture: Copy still fires and sets the confirmation flag (the
  slot stays as it was), Paste still fires and clears the flag. In both files the
  fired gesture and the flag after the copy block do not depend on the outcome of the
  clipboard read, nor those after the paste block on the outcome of the clipboard
  write.
\<close>

theorem C8_clipboard_failure_is_ignored:
  "(fist_start s = Some t0 \<and> now - t0 > GESTURE_HOLD_TIME \<and> \<not> copy_confirmed s \<and>
      \<not> copy_hotkey_raises f \<and> clipboard_text f = None \<longrightarrow>
      snd (copy_block f 0 now s) = [Copy] \<and> copy_confirmed (fst (copy_block f 0 now s)) \<and>
      (WARN, ''pyperclip.paste failed'') \<in> set (printed (fst (copy_block f 0 now s))) \<and>
      shared_clipboard (fst (copy_block f 0 now s)) = shared_clipboard s) \<and>
   (open_start s = Some t0 \<and> now - t0 > GESTURE_HOLD_TIME \<and> copy_confirmed s \<and>
      ctype (shared_clipboard s) = ''text'' \<and> cvalue (shared_clipboard s) \<noteq> [] \<and>
      set_clipboard_raises f \<and> \<not> paste_hotkey_raises f \<longrightarrow>
      snd (paste_block f 5 now s) = [Paste] \<and>
      \<not> copy_confirmed (fst (paste_block f 5 now s)) \<and>
      (WARN, ''pyperclip.copy failed'') \<in> set (printed (fst (paste_block f 5 now s)))) \<and>
   (fist_start_time s' = Some t0 \<and> now - t0 > GESTURE_HOLD_TIME_s \<and> \<not> copy_done s' \<and>
      \<not> copy_hotkey_raises f \<and> clipboard_text f = None \<longrightarrow>
      snd (copy_block_s f 0 now s') = [Copy] \<and> copy_done (fst (copy_block_s f 0 now s')) \<and>
      (WARN, ''pyperclip paste failed'') \<in> set (printed_s (fst (copy_block_s f 0 now s'))) \<and>
      shared_clipboard_s (fst (copy_block_s f 0 now s')) = shared_clipboard_s s') \<and>
   (open_start_time s' = Some t0 \<and> now - t0 > GESTURE_HOLD_TIME_s \<and> copy_done s' \<and>
      ctype (shared_clipboard_s s') = ''text'' \<and> truthy (cvalue (shared_clipboard_s s')) \<and>
      set_clipboard_raises f \<and> \<not> paste_hotkey_raises f \<longrightarrow>
      snd (paste_block_s f 5 now s') = [Paste] \<and>
      \<not> copy_done (fst (paste_block_s f 5 now s')) \<and>
      (WARN, ''pyperclip copy failed'') \<in> set (printed_s (fst (paste_block_s f 5 now s')))) \<and>
   copy_confirmed (fst (copy_block (f\<lparr>clipboard_text := a\<rparr>) n now s)) =
     copy_confirmed (fst (copy_block (f\<lparr>clipboard_text := b\<rparr>) n now s)) \<and>
   snd (copy_block (f\<lparr>clipboard_text := a\<rparr>) n now s) =
     snd (copy_block (f\<lparr>clipboard_text := b\<rparr>) n now s) \<and>
   copy_confirmed (fst (paste_block (f\<lparr>set_clipboard_raises := c\<rparr>) n now s)) =
     copy_confirmed (fst (paste_block (f\<lparr>set_clipboard_raises := d\<rparr>) n now s)) \<and>
   snd (paste_block (f\<lparr>set_clipboard_raises := c\<rparr>) n now s) =
     snd (paste_block (f\<lparr>set_clipboard_raises := d\<rparr>) n now s) \<and>
   copy_done (fst (copy_block_s (f\<lparr>clipboard_text := a\<rparr>) n now s')) =
     copy_done (fst (copy_block_s (f\<lparr>clipboard_text := b\<rparr>) n now s')) \<and>
   snd (copy_block_s (f\<lparr>clipboard_text := a\<rparr>) n now s') =
     snd (copy_block_s (f\<lparr>clipboard_text := b\<rparr>) n now s') \<and>
   copy_done (fst (paste_block_s (f\<lparr>set_clipboard_raises := c\<rparr>) n now s')) =
     copy_done (fst (paste_block_s (f\<lparr>set_clipboard_raises := d\<rparr>) n now s')) \<and>
   snd (paste_block_s (f\<lparr>set_clipboard_raises := c\<rparr>) n now s') =
     snd (paste_block_s (f\<lparr>set_clipboard_raises := d\<rparr>) n now s')"
  apply (intro conjI)
  subgoal using copy_read_failure [of s t0 now f] by blast
  subgoal using paste_write_failure [of s t0 now f] by blast
  subgoal using copy_read_failure_s [of s' t0 now f] by blast
  subgoal using paste_write_failure_s [of s' t0 now f] by blast
  by (rule flag_ignores_clipboard_calls flag_ignores_clipboard_calls_s)+

text \<open>
  C8 fails as stated: with the confirmation flag unset and a fist held long enough, a
  clipboard read that raises is warned about and the flag is set all the same; with
  the flag set and an open palm held long enough, a clipboard write that raises is
  warned about and the flag is cleared all the same.
\<close>

theorem C8_flag_changes_despite_failure:
  "\<not> copy_confirmed (init_state\<lparr>fist_start := Some 100\<rparr>) \<and>
   copy_confirmed (state_of (main_loop_frame
      ((frame_at (Some (still_hand 0.5 0.9)) 100.6)\<lparr>clipboard_text := None\<rparr>)
      (init_state\<lparr>fist_start := Some 100\<rparr>))) \<and>
   printed (state_of (main_loop_frame
      ((frame_at (Some (still_hand 0.5 0.9)) 100.6)\<lparr>clipboard_text := None\<rparr>)
      (init_state\<lparr>fist_start := Some 100\<rparr>))) =
     [(WARN, ''pyperclip.paste failed''),
      (INFO, ''Copy gesture detected but clipboard empty or non-text'')] \<and>
   copy_confirmed (init_state\<lparr>shared_clipboard := \<lparr>ctype = ''text'', cvalue = ''hello''\<rparr>,
      open_start := Some 101, copy_confirmed := True\<rparr>) \<and>
   \<not> copy_confirmed (state_of (main_loop_frame
      ((frame_at (Some (open_hand 0.5 0.5)) 101.6)\<lparr>set_clipboard_raises := True\<rparr>)
      (init_state\<lparr>shared_clipboard := \<lparr>ctype = ''text'', cvalue = ''hello''\<rparr>,
         open_start := Some 101, copy_confirmed := True\<rparr>))) \<and>
   printed (state_of (main_loop_frame
      ((frame_at (Some (open_hand 0.5 0.5)) 101.6)\<lparr>set_clipboard_raises := True\<rparr>)
      (init_state\<lparr>shared_clipboard := \<lparr>ctype = ''text'', cvalue = ''hello''\<rparr>,
         open_start := Some 101, copy_confirmed := True\<rparr>))) =
     [(WARN, ''pyperclip.copy failed''), (INFO, ''Performed paste of shared clipboard'')] \<and>
   \<not> copy_done (init_state_s\<lparr>fist_start_time := Some 100\<rparr>) \<and>
   copy_done (state_of (main_frame
      ((frame_at (Some (still_hand 0.5 0.9)) 100.6)\<lparr>clipboard_text := None\<rparr>)
      (init_state_s\<lparr>fist_start_time := Some 100\<rparr>)))"
  by (simp add: frame_defs frame_defs_s outcome_defs cfg cfg_s hands frame_at_def
      init_state_def init_state_s_def Let_def split del: if_split cong: if_weak_cong)

theorem C8_clipboard_failure_is_ignored_witness:
  "snd (copy_block ((frame_at None 100.6)\<lparr>clipboard_text := None\<rparr>) 0 100.6
      (init_state\<lparr>fist_start := Some 100\<rparr>)) = [Copy] \<and>
   copy_confirmed (fst (copy_block ((frame_at None 100.6)\<lparr>clipboard_text := None\<rparr>) 0 100.6
      (init_state\<lparr>fist_start := Some 100\<rparr>))) \<and>
   snd (copy_block_s ((frame_at None 100.6)\<lparr>clipboard_text := None\<rparr>) 0 100.6
      (init_state_s\<lparr>fist_start_time := Some 100\<rparr>)) = [Copy] \<and>
   copy_done (fst (copy_block_s ((frame_at None 100.6)\<lparr>clipboard_text := None\<rparr>) 0 100.6
      (init_state_s\<lparr>fist_start_time := Some 100\<rparr>))) \<and>
   snd (paste_block ((frame_at None 101.6)\<lparr>set_clipboard_raises := True\<rparr>) 5 101.6
      (init_state\<lparr>shared_clipboard := \<lparr>ctype = ''text'', cvalue = ''hello''\<rparr>,
         open_start := Some 101, copy_confirmed := True\<rparr>)) = [Paste] \<and>
   \<not> copy_confirmed (fst (paste_block
      ((frame_at None 101.6)\<lparr>set_clipboard_raises := True\<rparr>) 5 101.6
      (init_state\<lparr>shared_clipboard := \<lparr>ctype = ''text'', cvalue = ''hello''\<rparr>,
         open_start := Some 101, copy_confirmed := True\<rparr>))) \<and>
   snd (paste_block_s ((frame_at None 101.6)\<lparr>set_clipboard_raises := True\<rparr>) 5 101.6
      (init_state_s\<lparr>shared_clipboard_s := \<lparr>ctype = ''text'', cvalue = JStr ''hello''\<rparr>,
         open_start_time := Some 101, copy_done := True\<rparr>)) = [Paste] \<and>
   \<not> copy_done (fst (paste_block_s
      ((frame_at None 101.6)\<lparr>set_clipboard_raises := True\<rparr>) 5 101.6
      (init_state_s\<lparr>shared_clipboard_s := \<lparr>ctype = ''text'', cvalue = JStr ''hello''\<rparr>,
         open_start_time := Some 101, copy_done := True\<rparr>)))"
proof -
  let ?fc = "(frame_at None 100.6)\<lparr>clipboard_text := None\<rparr>"
  let ?fp = "(frame_at None 101.6)\<lparr>set_clipboard_raises := True\<rparr>"
  let ?sc = "init_state\<lparr>fist_start := Some 100\<rparr>"
  let ?sc' = "init_state_s\<lparr>fist_start_time := Some 100\<rparr>"
  let ?sp = "init_state\<lparr>shared_clipboard := \<lparr>ctype = ''text'', cvalue = ''hello''\<rparr>,
         open_start := Some 101, copy_confirmed := True\<rparr>"
  let ?sp' = "init_state_s\<lparr>shared_clipboard_s := \<lparr>ctype = ''text'', cvalue = JStr ''hello''\<rparr>,
         open_start_time := Some 101, copy_done := True\<rparr>"
  have c: "fist_start ?sc = Some 100 \<and> 100.6 - 100 > GESTURE_HOLD_TIME \<and> \<not> copy_confirmed ?sc \<and>
      \<not> copy_hotkey_raises ?fc \<and> clipboard_text ?fc = None"
    "fist_start_time ?sc' = Some 100 \<and> 100.6 - 100 > GESTURE_HOLD_TIME_s \<and> \<not> copy_done ?sc' \<and>
      \<not> copy_hotkey_raises ?fc \<and> clipboard_text ?fc = None"
    by (simp_all add: init_state_def init_state_s_def frame_at_def cfg cfg_s)
  have p: "open_start ?sp = Some 101 \<and> 101.6 - 101 > GESTURE_HOLD_TIME \<and> copy_confirmed ?sp \<and>
      ctype (shared_clipboard ?sp) = ''text'' \<and> cvalue (shared_clipboard ?sp) \<noteq> [] \<and>
      set_clipboard_raises ?fp \<and> \<not> paste_hotkey_raises ?fp"
    "open_start_time ?sp' = Some 101 \<and> 101.6 - 101 > GESTURE_HOLD_TIME_s \<and> copy_done ?sp' \<and>
      ctype (shared_clipboard_s ?sp') = ''text'' \<and> truthy (cvalue (shared_clipboard_s ?sp')) \<and>
      set_clipboard_raises ?fp \<and> \<not> paste_hotkey_raises ?fp"
    by (simp_all add: init_state_def init_state_s_def frame_at_def cfg cfg_s)
  note t1 = C8_clipboard_failure_is_ignored [of ?sc 100 "100.6" ?fc ?sc', THEN conjunct1,
      rule_format, OF c(1)]
  note t2 = C8_clipboard_failure_is_ignored [of ?sc 100 "100.6" ?fc ?sc', THEN conjunct2,
      THEN conjunct2, THEN conjunct1, rule_format, OF c(2)]
  note t3 = C8_clipboard_failure_is_ignored [of ?sp 101 "101.6" ?fp ?sp', THEN conjunct2,
      THEN conjunct1, rule_format, OF p(1)]
  note t4 = C8_clipboard_failure_is_ignored [of ?sp 101 "101.6" ?fp ?sp', THEN conjunct2,
      THEN conjunct2, THEN conjunct2, THEN conjunct1, rule_format, OF p(2)]
  show ?thesis using t1 t2 t3 t4 by blast
qed


subsection \<open>Proofs: the HTTP interface\<close>

lemma route_keeps: "(\<And>c. snd (view c) = c) \<Longrightarrow> snd (route ms view rq c) = c"
  by (simp add: route_def Let_def)

lemma route_post:
  "r_method rq = ''POST'' \<Longrightarrow> route [''POST''] view rq c = view c"
  by (simp add: route_def)

lemma handle_request_keeps: "snd (handle_request local_ip rq c) = c"
  by (simp add: handle_request_def route_keeps api_get_clipboard_def api_ip_def)

lemma handle_request_s_keeps:
  assumes "\<not> (r_path rq = ''/upload_clipboard'' \<and> r_method rq = ''POST'')"
  shows "snd (handle_request_s b64encode local_ip rq c) = c"
proof (cases "r_path rq = ''/upload_clipboard''")
  case True
  with assms have "r_method rq \<noteq> ''POST''" by simp
  with True show ?thesis
    by (simp add: handle_request_s_def route_def)
next
  case False
  then show ?thesis
    by (simp add: handle_request_s_def route_keeps get_clipboard_def api_ip_def)
qed

lemma upload_json_text_writes:
  assumes "r_path rq = ''/upload_clipboard''" "r_method rq = ''POST''" "r_is_json rq"
    "r_json rq = Some (JDict members)" "map_of members ''text'' = Some v" "v \<noteq> JNull"
  shows "snd (handle_request_s b64encode local_ip rq c) = \<lparr> ctype = ''text'', cvalue = v \<rparr>"
  using assms
  by (cases v) (simp_all add: handle_request_s_def route_post upload_clipboard_def)

lemma upload_image_file_writes:
  assumes "r_path rq = ''/upload_clipboard''" "r_method rq = ''POST''" "\<not> r_is_json rq"
    "map_of (r_files rq) ''image'' = Some img"
  shows "snd (handle_request_s b64encode local_ip rq c) =
     \<lparr> ctype = ''image'', cvalue = JStr (b64encode img) \<rparr>"
  using assms
  by (simp add: handle_request_s_def route_post upload_clipboard_def upload_image_def)

lemma upload_text_writes:
  "snd (handle_request_s b64encode local_ip (upload_text_request t) c) =
     \<lparr> ctype = ''text'', cvalue = JStr t \<rparr>"
  by (rule upload_json_text_writes [where members = "[(''text'', JStr t)]"])
     (simp_all add: upload_text_request_def)

lemma upload_image_writes:
  "snd (handle_request_s b64encode local_ip (upload_image_request img) c) =
     \<lparr> ctype = ''image'', cvalue = JStr (b64encode img) \<rparr>"
  by (rule upload_image_file_writes) (simp_all add: upload_image_request_def)

text \<open>
  C4 (as the code has it). In \<^verbatim>\<open>gesture_drop.py\<close> no request changes the slot: its
  two routes only read. In \<^verbatim>\<open>gesture_file_server.py\<close> every request other than a
  POST to \<^verbatim>\<open>/upload_clipboard\<close> leaves the slot unchanged, and that route is a write
  path: every JSON body that is an object with a \<^verbatim>\<open>"text"\<close> member other than null
  replaces the slot by kind text and that member as the value, whatever JSON value it
  is and whatever else the body holds; every body that is not JSON and carries a file
  named \<^verbatim>\<open>image\<close> replaces the slot by kind image and the base64 text of the file.
\<close>

theorem C4_query_interface_writes:
  "snd (handle_request local_ip rq c) = c \<and>
   (\<not> (r_path rq = ''/upload_clipboard'' \<and> r_method rq = ''POST'') \<longrightarrow>
      snd (handle_request_s b64encode local_ip rq c') = c') \<and>
   (r_path rq = ''/upload_clipboard'' \<and> r_method rq = ''POST'' \<and> r_is_json rq \<and>
      r_json rq = Some (JDict members) \<and> map_of members ''text'' = Some v \<and> v \<noteq> JNull \<longrightarrow>
      snd (handle_request_s b64encode local_ip rq c') = \<lparr> ctype = ''text'', cvalue = v \<rparr>) \<and>
   (r_path rq = ''/upload_clipboard'' \<and> r_method rq = ''POST'' \<and> \<not> r_is_json rq \<and>
      map_of (r_files rq) ''image'' = Some img \<longrightarrow>
      snd (handle_request_s b64encode local_ip rq c') =
        \<lparr> ctype = ''image'', cvalue = JStr (b64encode img) \<rparr>) \<and>
   snd (handle_request_s b64encode local_ip (upload_text_request t) c') =
     \<lparr> ctype = ''text'', cvalue = JStr t \<rparr> \<and>
   snd (handle_request_s b64encode local_ip (upload_image_request img) c') =
     \<lparr> ctype = ''image'', cvalue = JStr (b64encode img) \<rparr>"
  using handle_request_keeps [of local_ip rq c]
    handle_request_s_keeps [of rq b64encode local_ip c']
    upload_json_text_writes [of rq members v b64encode local_ip c']
    upload_image_file_writes [of rq img b64encode local_ip c']
    upload_text_writes [of b64encode local_ip t c']
    upload_image_writes [of b64encode local_ip img c']
  by blast

text \<open>
  C4 fails as stated: in \<^verbatim>\<open>gesture_file_server.py\<close> the request
  \<^verbatim>\<open>POST /upload_clipboard\<close> with the JSON body \<^verbatim>\<open>{"text": "hi"}\<close> changes the
  initial slot. (The encoder is not reached on this request.)
\<close>

theorem C4_upload_changes_slot:
  "snd (handle_request_s (\<lambda>b. b) ''192.168.0.2'' (upload_text_request ''hi'')
      \<lparr> ctype = ''empty'', cvalue = JStr [] \<rparr>) = \<lparr> ctype = ''text'', cvalue = JStr ''hi'' \<rparr> \<and>
   \<lparr> ctype = ''text'', cvalue = JStr ''hi'' \<rparr> \<noteq> \<lparr> ctype = ''empty'', cvalue = JStr [] \<rparr>"
  by (simp add: handle_request_s_def route_def upload_clipboard_def upload_text_request_def
      has_len_def)

theorem C4_query_interface_writes_witness:
  "snd (handle_request_s (\<lambda>b. b) ''192.168.0.2'' get_clipboard_request
      \<lparr> ctype = ''text'', cvalue = JStr ''hello'' \<rparr>) = \<lparr> ctype = ''text'', cvalue = JStr ''hello'' \<rparr> \<and>
   snd (handle_request_s (\<lambda>b. b) ''192.168.0.2''
      \<lparr> r_method = ''POST'', r_path = ''/upload_clipboard'', r_is_json = True,
        r_json = Some (JDict [(''device'', JStr ''phone''), (''text'', JNum 5)]),
        r_files = [] \<rparr>
      \<lparr> ctype = ''empty'', cvalue = JStr [] \<rparr>) = \<lparr> ctype = ''text'', cvalue = JNum 5 \<rparr> \<and>
   snd (handle_request_s (\<lambda>b. b) ''192.168.0.2''
      \<lparr> r_method = ''POST'', r_path = ''/upload_clipboard'', r_is_json = False,
        r_json = None, r_files = [(''note'', ''x''), (''image'', ''PNG'')] \<rparr>
      \<lparr> ctype = ''empty'', cvalue = JStr [] \<rparr>) = \<lparr> ctype = ''image'', cvalue = JStr ''PNG'' \<rparr>"
proof -
  let ?ip = "''192.168.0.2''"
  let ?c = "\<lparr> ctype = ''empty'', cvalue = JStr [] \<rparr>"
  let ?j = "\<lparr> r_method = ''POST'', r_path = ''/upload_clipboard'', r_is_json = True,
        r_json = Some (JDict [(''device'', JStr ''phone''), (''text'', JNum 5)]),
        r_files = [] \<rparr>"
  let ?m = "\<lparr> r_method = ''POST'', r_path = ''/upload_clipboard'', r_is_json = False,
        r_json = None, r_files = [(''note'', ''x''), (''image'', ''PNG'')] \<rparr>"
  have g: "\<not> (r_path get_clipboard_request = ''/upload_clipboard''
      \<and> r_method get_clipboard_request = ''POST'')"
    by (simp add: get_clipboard_request_def)
  have j: "r_path ?j = ''/upload_clipboard'' \<and> r_method ?j = ''POST'' \<and> r_is_json ?j \<and>
      r_json ?j = Some (JDict [(''device'', JStr ''phone''), (''text'', JNum 5)]) \<and>
      map_of [(''device'', JStr ''phone''), (''text'', JNum 5)] ''text'' = Some (JNum 5) \<and>
      JNum 5 \<noteq> JNull"
    by simp
  have m: "r_path ?m = ''/upload_clipboard'' \<and> r_method ?m = ''POST'' \<and> \<not> r_is_json ?m \<and>
      map_of (r_files ?m) ''image'' = Some ''PNG''"
    by simp
  note a = C4_query_interface_writes [where rq = get_clipboard_request
        and b64encode = "\<lambda>b. b" and local_ip = ?ip
        and c' = "\<lparr> ctype = ''text'', cvalue = JStr ''hello'' \<rparr>",
        THEN conjunct2, THEN conjunct1, rule_format, OF g]
  note b = C4_query_interface_writes [where rq = ?j and b64encode = "\<lambda>b. b"
        and local_ip = ?ip and c' = ?c
        and members = "[(''device'', JStr ''phone''), (''text'', JNum 5)]" and v = "JNum 5",
        THEN conjunct2, THEN conjunct2, THEN conjunct1, rule_format, OF j]
  note c = C4_query_interface_writes [where rq = ?m and b64encode = "\<lambda>b. b"
        and local_ip = ?ip and c' = ?c and img = "''PNG''",
        THEN conjunct2, THEN conjunct2, THEN conjunct2, THEN conjunct1, rule_format, OF m]
  from a b c show ?thesis by simp
qed

subsection \<open>Proofs: the slot under two threads\<close>

lemma write_read_interleavings:
  "interleavings (write_steps k v) read_steps =
     [[StoreType k, StoreValue v, LoadType, LoadValue],
      [StoreType k, LoadType, StoreValue v, LoadValue],
      [StoreType k, LoadType, LoadValue, StoreValue v],
      [LoadType, StoreType k, StoreValue v, LoadValue],
      [LoadType, StoreType k, LoadValue, StoreValue v],
      [LoadType, LoadValue, StoreType k, StoreValue v]]"
  by (simp add: write_steps_def read_steps_def)

lemma write_alone:
  "t \<noteq> [] \<Longrightarrow> slot (run_schedule (write_steps ''text'' t) c) = safe_copy_to_shared t c"
  by (simp add: run_schedule_def write_steps_def safe_copy_to_shared_def)

lemma observed_fieldwise:
  "sched \<in> set (interleavings (write_steps k v) read_steps) \<Longrightarrow>
   fst (observed sched c) \<in> {Some (ctype c), Some k} \<and>
   snd (observed sched c) \<in> {Some (cvalue c), Some v} \<and>
   slot (run_schedule sched c) = \<lparr> ctype = k, cvalue = v \<rparr>"
  unfolding write_read_interleavings
  by (auto simp: observed_def run_schedule_def)

text \<open>
  C3 (as the code has it). Each store and each lookup is atomic, the write as a whole
  and the read as a whole are not. Under every interleaving of a write of
  \<open>(k, v)\<close> with a read, the read sees a kind that is the prior one or \<open>k\<close> and a
  value that is the prior one or \<open>v\<close>, and the slot ends as \<open>(k, v)\<close>. A read wholly
  before the write sees the prior pair, a read wholly after it sees the new pair; a
  read between the two stores sees the new kind with the prior value, and a read that
  straddles the write sees the prior kind with the new value. Run alone, the two
  stores are what \<^verbatim>\<open>safe_copy_to_shared\<close> does.
\<close>

theorem C3_read_is_fieldwise:
  "(\<forall>sched \<in> set (interleavings (write_steps k v) read_steps).
      fst (observed sched c) \<in> {Some (ctype c), Some k} \<and>
      snd (observed sched c) \<in> {Some (cvalue c), Some v} \<and>
      slot (run_schedule sched c) = \<lparr> ctype = k, cvalue = v \<rparr>) \<and>
   observed (read_steps @ write_steps k v) c = (Some (ctype c), Some (cvalue c)) \<and>
   observed (write_steps k v @ read_steps) c = (Some k, Some v) \<and>
   observed [StoreType k, LoadType, LoadValue, StoreValue v] c = (Some k, Some (cvalue c)) \<and>
   observed [LoadType, StoreType k, StoreValue v, LoadValue] c = (Some (ctype c), Some v) \<and>
   (t \<noteq> [] \<longrightarrow> slot (run_schedule (write_steps ''text'' t) c') = safe_copy_to_shared t c')"
  using observed_fieldwise [of _ k v c] write_alone [of t c']
  by (simp add: observed_def run_schedule_def write_steps_def read_steps_def)

text \<open>
  C3 fails as stated: while the slot holds the text \<^verbatim>\<open>hello\<close>, a screenshot write
  of \<^verbatim>\<open>('image', 'QUJD')\<close> stores the kind, the query view reads kind and value, and
  the write then stores the value. The view answers \<^verbatim>\<open>('image', 'hello')\<close>, which is
  neither the prior pair nor the new one.
\<close>

theorem C3_mixed_read:
  "[StoreType ''image'', LoadType, LoadValue, StoreValue ''QUJD'']
     \<in> set (interleavings (write_steps ''image'' ''QUJD'') read_steps) \<and>
   observed [StoreType ''image'', LoadType, LoadValue, StoreValue ''QUJD'']
     \<lparr> ctype = ''text'', cvalue = ''hello'' \<rparr> = (Some ''image'', Some ''hello'') \<and>
   (Some ''image'', Some ''hello'') \<noteq> (Some ''text'', Some ''hello'') \<and>
   (Some ''image'', Some ''hello'') \<noteq> (Some ''image'', Some ''QUJD'')"
  by (simp add: write_read_interleavings observed_def run_schedule_def)

theorem C3_read_is_fieldwise_witness:
  "[StoreType ''image'', LoadType, LoadValue, StoreValue ''QUJD'']
     \<in> set (interleavings (write_steps ''image'' ''QUJD'') read_steps) \<and>
   fst (observed [StoreType ''image'', LoadType, LoadValue, StoreValue ''QUJD'']
     \<lparr> ctype = ''text'', cvalue = ''hello'' \<rparr>) \<in> {Some ''text'', Some ''image''} \<and>
   snd (observed [StoreType ''image'', LoadType, LoadValue, StoreValue ''QUJD'']
     \<lparr> ctype = ''text'', cvalue = ''hello'' \<rparr>) \<in> {Some ''hello'', Some ''QUJD''} \<and>
   slot (run_schedule (write_steps ''text'' ''hello'') \<lparr> ctype = ''empty'', cvalue = [] \<rparr>) =
     safe_copy_to_shared ''hello'' \<lparr> ctype = ''empty'', cvalue = [] \<rparr>"
proof -
  have m: "[StoreType ''image'', LoadType, LoadValue, StoreValue ''QUJD'']
     \<in> set (interleavings (write_steps ''image'' ''QUJD'') read_steps)"
    by (simp add: write_read_interleavings)
  have n: "''hello'' \<noteq> []" by simp
  note t = C3_read_is_fieldwise [where k = "''image''" and v = "''QUJD''"
      and c = "\<lparr> ctype = ''text'', cvalue = ''hello'' \<rparr>" and t = "''hello''"
      and c' = "\<lparr> ctype = ''empty'', cvalue = [] \<rparr>"]
  from t have a: "\<forall>sched \<in> set (interleavings (write_steps ''image'' ''QUJD'') read_steps).
      fst (observed sched \<lparr> ctype = ''text'', cvalue = ''hello'' \<rparr>)
        \<in> {Some (ctype \<lparr> ctype = ''text'', cvalue = ''hello'' \<rparr>), Some ''image''} \<and>
      snd (observed sched \<lparr> ctype = ''text'', cvalue = ''hello'' \<rparr>)
        \<in> {Some (cvalue \<lparr> ctype = ''text'', cvalue = ''hello'' \<rparr>), Some ''QUJD''} \<and>
      slot (run_schedule sched \<lparr> ctype = ''text'', cvalue = ''hello'' \<rparr>) =
        \<lparr> ctype = ''image'', cvalue = ''QUJD'' \<rparr>"
    by (rule conjunct1)
  from t n have b: "slot (run_schedule (write_steps ''text'' ''hello'')
      \<lparr> ctype = ''empty'', cvalue = [] \<rparr>) =
     safe_copy_to_shared ''hello'' \<lparr> ctype = ''empty'', cvalue = [] \<rparr>"
    by blast
  from bspec [OF a m] m b show ?thesis by simp
qed

end
